theory Spec2Isabelle
  imports Complex_Main "HOL-Library.Char_ord" "HOL-Library.List_Lexorder"
begin

section \<open>Python values, exceptions and built-ins\<close>

text \<open>
  The remote service answers with a JSON document, which \<open>response.json()\<close> turns
  into a Python value. Floats are modelled as real numbers with exact arithmetic (no
  rounding; NaN and the infinities are outside the model); integers are unbounded, as in
  Python. A dictionary is an association list read with \<open>map_of\<close>; its keys are
  strings, as JSON's are.
\<close>

datatype pyval =
    PNone
  | PBool bool
  | PInt int
  | PFloat real
  | PStr string
  | PList "pyval list"
  | PDict "(string \<times> pyval) list"

text \<open>
  Exceptions are values. \<open>DeepstackClientError\<close> carries message, status code and
  details (\<open>details or {}\<close>); \<open>LocalModelError\<close> carries its message; every other
  exception is a \<open>PyError\<close> with its class and its text (\<open>str(exc)\<close>).
\<close>

datatype pyclass =
    TypeError | ValueError | OverflowError | AttributeError | IndexError | KeyError
  | OtherError

datatype exn =
    DeepstackClientError string int "(string \<times> pyval) list"
  | LocalModelError string
  | PyError pyclass string

fun str_exn :: "exn \<Rightarrow> string" where
  "str_exn (DeepstackClientError msg st det) = msg"
| "str_exn (LocalModelError msg) = msg"
| "str_exn (PyError c msg) = msg"

text \<open>
  What the code calls and this repository does not define is a parameter of the model,
  one field of the record \<open>env\<close> each:
  \<^item> the parser behind \<open>float(s)\<close> and \<open>int(s)\<close> for a string (\<open>None\<close> is the
    \<open>ValueError\<close>), and \<open>str(v)\<close>;
  \<^item> werkzeug's \<open>secure_filename\<close>;
  \<^item> the clock (\<open>datetime.now(timezone.utc).isoformat()\<close>) and the process
    environment (\<open>os.getenv("DEEPSTACK_BASE_URL")\<close>);
  \<^item> \<open>requests.post\<close>: from endpoint, file name, stream, media type and timeout to
    what came back;
  \<^item> the file system, Pillow and onnxruntime as the local engine sees them.
\<close>

datatype http_outcome =
    RequestException string
  | Response int string "pyval option"

datatype config_read =
    ConfigMissing
  | ConfigUnreadable exn
  | ConfigJson pyval

record session =
  input_names :: "string list"
  session_run :: "string \<Rightarrow> real list list list list \<Rightarrow> string + real list"

datatype session_load =
    ModelMissing
  | ModelUnloadable exn
  | ModelLoaded session

record env =
  float_of_str :: "string \<Rightarrow> real option"
  int_of_str :: "string \<Rightarrow> int option"
  str_of :: "pyval \<Rightarrow> string"
  secure_filename :: "string \<Rightarrow> string"
  utcnow_isoformat :: string
  getenv_base_url :: "string option"
  requests_post :: "string \<Rightarrow> string \<Rightarrow> string \<Rightarrow> string \<Rightarrow> int \<Rightarrow> http_outcome"
  read_config :: "string \<Rightarrow> config_read"
  load_model :: "string \<Rightarrow> session_load"
  open_image :: "string \<Rightarrow> int \<Rightarrow> int \<Rightarrow> string + real list list list"

text \<open>
  \<open>float(n)\<close> of an integer raises \<open>OverflowError\<close> when \<open>n\<close> rounds beyond the
  largest double, that is from \<open>2^1024 - 2^970\<close> on in absolute value.
\<close>

definition float_overflows :: "int \<Rightarrow> bool" where
  "float_overflows n \<longleftrightarrow> 2 ^ 1024 - 2 ^ 970 \<le> \<bar>n\<bar>"

fun py_float :: "env \<Rightarrow> pyval \<Rightarrow> exn + real" where
  "py_float env PNone =
     Inl (PyError TypeError ''float() argument must be a string or a real number'')"
| "py_float env (PBool b) = Inr (if b then 1 else 0)"
| "py_float env (PInt n) =
     (if float_overflows n then Inl (PyError OverflowError ''int too large to convert to float'')
      else Inr (of_int n))"
| "py_float env (PFloat x) = Inr x"
| "py_float env (PStr s) =
     (case float_of_str env s of
        None \<Rightarrow> Inl (PyError ValueError ''could not convert string to float'')
      | Some x \<Rightarrow> Inr x)"
| "py_float env (PList xs) =
     Inl (PyError TypeError ''float() argument must be a string or a real number'')"
| "py_float env (PDict d) =
     Inl (PyError TypeError ''float() argument must be a string or a real number'')"

text \<open>An \<open>except (A, B)\<close> clause catches the built-in exceptions of these classes.\<close>

fun is_instance :: "exn \<Rightarrow> pyclass list \<Rightarrow> bool" where
  "is_instance (PyError c msg) cs = (c \<in> set cs)"
| "is_instance (DeepstackClientError msg st det) cs = False"
| "is_instance (LocalModelError msg) cs = False"

text \<open>
  \<open>int(v)\<close>: a float is truncated towards zero.
\<close>

fun py_int :: "env \<Rightarrow> pyval \<Rightarrow> exn + int" where
  "py_int env PNone =
     Inl (PyError TypeError ''int() argument must be a string, a bytes-like object or a real number'')"
| "py_int env (PBool b) = Inr (if b then 1 else 0)"
| "py_int env (PInt n) = Inr n"
| "py_int env (PFloat x) = Inr (if 0 \<le> x then \<lfloor>x\<rfloor> else \<lceil>x\<rceil>)"
| "py_int env (PStr s) =
     (case int_of_str env s of
        None \<Rightarrow> Inl (PyError ValueError ''invalid literal for int() with base 10'')
      | Some n \<Rightarrow> Inr n)"
| "py_int env (PList xs) =
     Inl (PyError TypeError ''int() argument must be a string, a bytes-like object or a real number'')"
| "py_int env (PDict d) =
     Inl (PyError TypeError ''int() argument must be a string, a bytes-like object or a real number'')"

text \<open>Truth value of a Python value, as \<open>if v:\<close> tests it.\<close>

fun truthy :: "pyval \<Rightarrow> bool" where
  "truthy PNone = False"
| "truthy (PBool b) = b"
| "truthy (PInt n) = (n \<noteq> 0)"
| "truthy (PFloat x) = (x \<noteq> 0)"
| "truthy (PStr s) = (s \<noteq> [])"
| "truthy (PList xs) = (xs \<noteq> [])"
| "truthy (PDict d) = (d \<noteq> [])"

text \<open>\<open>d.get(k)\<close> and \<open>d.get(k, default)\<close>.\<close>

definition dict_get :: "(string \<times> pyval) list \<Rightarrow> string \<Rightarrow> pyval" where
  "dict_get d k = (case map_of d k of None \<Rightarrow> PNone | Some v \<Rightarrow> v)"

definition dict_get_default :: "(string \<times> pyval) list \<Rightarrow> string \<Rightarrow> pyval \<Rightarrow> pyval" where
  "dict_get_default d k dflt = (case map_of d k of None \<Rightarrow> dflt | Some v \<Rightarrow> v)"

definition has_key :: "(string \<times> pyval) list \<Rightarrow> string \<Rightarrow> bool" where
  "has_key d k = (map_of d k \<noteq> None)"

text \<open>
  \<open>round(x, ndigits)\<close> of a float: to the nearest multiple of \<open>10^-ndigits\<close>, a tie
  going to the even neighbour.
\<close>

definition round_half_even :: "real \<Rightarrow> int" where
  "round_half_even x =
     (let f = \<lfloor>x\<rfloor>; d = x - of_int f
      in if d < 1 / 2 then f else if 1 / 2 < d then f + 1 else if even f then f else f + 1)"

definition py_round :: "real \<Rightarrow> nat \<Rightarrow> real" where
  "py_round x nd = of_int (round_half_even (x * 10 ^ nd)) / 10 ^ nd"

text \<open>Decimal text of an integer, as \<open>str(n)\<close> and an f-string print it.\<close>

fun str_nat :: "nat \<Rightarrow> string" where
  "str_nat n =
     (if n < 10 then [char_of (48 + n)] else str_nat (n div 10) @ [char_of (48 + n mod 10)])"

declare str_nat.simps [simp del]

definition str_int :: "int \<Rightarrow> string" where
  "str_int i = (if i < 0 then CHR ''-'' # str_nat (nat (- i)) else str_nat (nat i))"

text \<open>Strings are sequences of ASCII characters; \<open>is_space\<close> holds of the ASCII
  characters that \<open>str.isspace\<close> accepts (and so \<open>str.strip()\<close> and \<open>str.split()\<close>
  remove). String methods: \<open>s or ""\<close> of an optional string, \<open>sep.join(xs)\<close>,
  \<open>s.startswith(p)\<close>, \<open>s.lower()\<close> (on ASCII), \<open>s.rstrip("/")\<close>, \<open>s.strip()\<close>,
  \<open>s.replace("\n", " ")\<close> and \<open>s.rsplit(".", 1)[1]\<close> for an \<open>s\<close> that holds a dot.\<close>

definition or_empty :: "string option \<Rightarrow> string" where
  "or_empty s = (case s of None \<Rightarrow> [] | Some t \<Rightarrow> t)"

fun join :: "string \<Rightarrow> string list \<Rightarrow> string" where
  "join sep [] = []"
| "join sep [x] = x"
| "join sep (x # y # ys) = x @ sep @ join sep (y # ys)"

definition startswith :: "string \<Rightarrow> string \<Rightarrow> bool" where
  "startswith s p = (take (length p) s = p)"

definition lower_char :: "char \<Rightarrow> char" where
  "lower_char c =
     (if CHR ''A'' \<le> c \<and> c \<le> CHR ''Z'' then char_of (of_char c + (32::nat)) else c)"

definition lower :: "string \<Rightarrow> string" where
  "lower s = map lower_char s"

definition rstrip_slash :: "string \<Rightarrow> string" where
  "rstrip_slash s = rev (dropWhile (\<lambda>c. c = CHR ''/'') (rev s))"

definition is_space :: "char \<Rightarrow> bool" where
  "is_space c \<longleftrightarrow>
     c \<in> {CHR '' '', CHR 0x09, CHR 0x0A, CHR 0x0B, CHR 0x0C, CHR 0x0D,
          CHR 0x1C, CHR 0x1D, CHR 0x1E, CHR 0x1F}"

definition strip :: "string \<Rightarrow> string" where
  "strip s = rev (dropWhile is_space (rev (dropWhile is_space s)))"

definition newlines_to_spaces :: "string \<Rightarrow> string" where
  "newlines_to_spaces s = map (\<lambda>c. if c = CHR 0x0A then CHR '' '' else c) s"

definition rsplit_dot_last :: "string \<Rightarrow> string" where
  "rsplit_dot_last s = rev (takeWhile (\<lambda>c. c \<noteq> CHR ''.'') (rev s))"

text \<open>
  \<open>sorted(xs, key=k, reverse=True)\<close>: the interpreter reverses the list, sorts it
  stably in ascending key order and reverses the result.
\<close>

definition sorted_reverse :: "('a \<Rightarrow> real) \<Rightarrow> 'a list \<Rightarrow> 'a list" where
  "sorted_reverse k xs = rev (sort_key k (rev xs))"

section \<open>The remote client: utils/deepstack_client.py\<close>

definition ALLOWED_EXTENSIONS :: "string set" where
  "ALLOWED_EXTENSIONS = {''jpg'', ''jpeg'', ''png'', ''bmp'', ''gif'', ''webp''}"

definition ALLOWED_MIME_PREFIX :: string where
  "ALLOWED_MIME_PREFIX = ''image/''"

subsection \<open>Upload validation\<close>

text \<open>
  The uploaded file as the code reads it: its declared name and media type (either may
  be missing) and its bytes.
\<close>

record uploaded_file =
  filename :: "string option"
  mimetype :: "string option"
  stream :: string

definition validate_image_upload ::
  "env \<Rightarrow> uploaded_file option \<Rightarrow> uploaded_file option \<times> string option" where
  "validate_image_upload env uploaded =
     (case uploaded of
        None \<Rightarrow> (None, Some ''No file was uploaded.'')
      | Some f \<Rightarrow>
          (let fname = secure_filename env (or_empty (filename f))
           in if fname = [] then (None, Some ''Please choose an image file first.'')
              else if CHR ''.'' \<notin> set fname then (None, Some ''Uploaded file has no extension.'')
              else
                (let extension = lower (rsplit_dot_last fname)
                 in if extension \<notin> ALLOWED_EXTENSIONS
                    then (let allowed_text = join '', '' (sorted_list_of_set ALLOWED_EXTENSIONS)
                          in (None, Some (''Unsupported file type '' @ [CHR 0x27] @ extension
                                @ [CHR 0x27] @ ''. Allowed: '' @ allowed_text @ ''.'')))
                    else
                      (let mtype = or_empty (mimetype f)
                       in if mtype \<noteq> [] \<and> \<not> startswith mtype ALLOWED_MIME_PREFIX
                          then (None, Some (''Invalid file MIME type '' @ [CHR 0x27] @ mtype
                                  @ [CHR 0x27] @ ''. Only images are supported.''))
                          else (Some f, None)))))"

subsection \<open>Confidence normalisation\<close>

text \<open>
  \<open>_normalize_confidence(value)\<close>. The \<open>except\<close> clause names \<open>TypeError\<close> and
  \<open>ValueError\<close>; any other exception of \<open>float(value)\<close> leaves the function. The
  division and the multiplication by 100 are exact here; in doubles they round, so that
  \<open>percent = score * 100\<close> holds of the code only up to rounding, and a rounded percent
  can differ from the model's in its last digit.
\<close>

definition normalize_confidence :: "env \<Rightarrow> pyval \<Rightarrow> exn + (real \<times> real)" where
  "normalize_confidence env v =
     (case (case py_float env v of
              Inr x \<Rightarrow> Inr x
            | Inl e \<Rightarrow> if is_instance e [TypeError, ValueError] then Inr 0 else Inl e) of
        Inl e \<Rightarrow> Inl e
      | Inr confidence_float0 \<Rightarrow>
          (let confidence_float = max 0 confidence_float0
           in if 1 < confidence_float
              then (let confidence_percent = min confidence_float 100
                    in Inr (confidence_percent / 100, confidence_percent))
              else Inr (confidence_float, confidence_float * 100)))"

record profile =
  level :: string
  explanation :: string
  bar_class :: string

definition confidence_profile :: "real \<Rightarrow> profile" where
  "confidence_profile confidence_percent =
     (if 80 \<le> confidence_percent then
        \<lparr>level = ''high'',
         explanation = ''Very strong match. The model is highly confident in this fruit label.'',
         bar_class = ''success''\<rparr>
      else if 50 \<le> confidence_percent then
        \<lparr>level = ''medium'',
         explanation = ''Moderate confidence. The prediction is plausible but not definitive.'',
         bar_class = ''warning''\<rparr>
      else
        \<lparr>level = ''low'',
         explanation = ''Low confidence. The image may be unclear or outside model training patterns.'',
         bar_class = ''danger''\<rparr>)"

subsection \<open>Extraction of the predictions\<close>

text \<open>
  One extracted prediction: the dictionary with the keys \<open>label\<close>, \<open>confidence\<close> and
  \<open>confidence_percent\<close>.
\<close>

record prediction =
  label :: string
  confidence :: real
  confidence_percent :: real

text \<open>
  The prediction built from a dictionary \<open>d\<close> (the payload itself, or an entry of its
  \<open>predictions\<close> list): the confidence is normalised first, then the label is printed.
\<close>

definition prediction_of :: "env \<Rightarrow> (string \<times> pyval) list \<Rightarrow> exn + prediction" where
  "prediction_of env d =
     (case normalize_confidence env (dict_get d ''confidence'') of
        Inl e \<Rightarrow> Inl e
      | Inr (score, percent) \<Rightarrow>
          Inr \<lparr>label = str_of env (dict_get_default d ''label'' (PStr ''Unknown'')),
               confidence = py_round score 4,
               confidence_percent = py_round percent 2\<rparr>)"

text \<open>The loop over \<open>payload["predictions"]\<close>, appending to the list built so far.\<close>

fun extract_items :: "env \<Rightarrow> prediction list \<Rightarrow> pyval list \<Rightarrow> exn + prediction list" where
  "extract_items env acc [] = Inr acc"
| "extract_items env acc (PDict d # items) =
     (case prediction_of env d of
        Inl e \<Rightarrow> Inl e
      | Inr p \<Rightarrow> extract_items env (acc @ [p]) items)"
| "extract_items env acc (item # items) = extract_items env acc items"

definition extract_predictions :: "env \<Rightarrow> pyval \<Rightarrow> exn + prediction list" where
  "extract_predictions env payload =
     (case payload of
        PDict d \<Rightarrow>
          if truthy (dict_get d ''error'') then
            Inl (DeepstackClientError
                   (''DeepStack reported an error: '' @ str_of env (dict_get d ''error''))
                   502 [(''response'', payload)])
          else
            (case (if has_key d ''label''
                   then (case prediction_of env d of Inl e \<Rightarrow> Inl e | Inr p \<Rightarrow> Inr [p])
                   else Inr []) of
               Inl e \<Rightarrow> Inl e
             | Inr single \<Rightarrow>
                 (case (case dict_get d ''predictions'' of
                          PList items \<Rightarrow> extract_items env single items
                        | other \<Rightarrow> Inr single) of
                    Inl e \<Rightarrow> Inl e
                  | Inr found \<Rightarrow>
                      if found = [] then
                        Inl (DeepstackClientError
                               ''DeepStack returned no predictions for this image.''
                               502 [(''response'', payload)])
                      else Inr (sorted_reverse confidence_percent found)))
      | other \<Rightarrow> Inl (DeepstackClientError ''DeepStack response format is invalid.'' 502 []))"

subsection \<open>The call of the remote model\<close>

record deepstack_result =
  endpoint :: string
  status_code :: int
  payload :: pyval
  response_preview :: string

text \<open>
  \<open>call_custom_model(uploaded_file, base_url, model_name, timeout_seconds)\<close>. The
  position of the stream is not modelled (\<open>seek(0)\<close>): the whole of it is sent.
\<close>

definition call_custom_model ::
  "env \<Rightarrow> uploaded_file \<Rightarrow> string \<Rightarrow> string \<Rightarrow> int \<Rightarrow> exn + deepstack_result" where
  "call_custom_model env f base_url model_name timeout_seconds =
     (let clean_base_url = rstrip_slash base_url;
          ep = clean_base_url @ ''/v1/vision/custom/'' @ model_name;
          fname0 = secure_filename env (or_empty (filename f));
          fname = (if fname0 = [] then ''uploaded-image'' else fname0);
          mtype0 = or_empty (mimetype f);
          mtype = (if mtype0 = [] then ''application/octet-stream'' else mtype0)
      in case requests_post env ep fname (stream f) mtype timeout_seconds of
           RequestException cause \<Rightarrow>
             Inl (DeepstackClientError ''Could not reach DeepStack service.'' 503
                    [(''endpoint'', PStr ep), (''exception'', PStr cause)])
         | Response code body parsed \<Rightarrow>
             (let raw_preview = strip (newlines_to_spaces (take 500 body))
              in if code = 404 then
                   Inl (DeepstackClientError ''DeepStack custom endpoint was not found.'' 404
                          [(''endpoint'', PStr ep),
                           (''response_preview'', PStr raw_preview),
                           (''hint'', PStr (''Current DeepStack build may not expose /v1/vision/custom/<model> ''
                                            @ ''for ONNX custom models.''))])
                 else if code \<noteq> 200 then
                   Inl (DeepstackClientError (''DeepStack returned HTTP '' @ str_int code @ ''.'') code
                          [(''endpoint'', PStr ep), (''response_preview'', PStr raw_preview)])
                 else
                   (case parsed of
                      None \<Rightarrow>
                        Inl (DeepstackClientError ''DeepStack returned a non-JSON response.'' 502
                               [(''endpoint'', PStr ep), (''response_preview'', PStr raw_preview)])
                    | Some json \<Rightarrow>
                        Inr \<lparr>endpoint = ep, status_code = code, payload = json,
                             response_preview = raw_preview\<rparr>)))"

subsection \<open>The response document\<close>

text \<open>
  The document \<open>build_prediction_response\<close> returns. Its keys \<open>endpoint\<close>,
  \<open>confidence\<close> and \<open>confidence_percent\<close> are the fields \<open>resp_endpoint\<close>,
  \<open>top_confidence\<close> and \<open>top_confidence_percent\<close>; the nested \<open>runtime\<close> dictionary
  is the two fields \<open>runtime_\<dots>\<close>.
\<close>

record prediction_response =
  model_name :: string
  resp_endpoint :: string
  fruit :: string
  top_confidence :: real
  top_confidence_percent :: real
  confidence_level :: string
  confidence_bar_class :: string
  confidence_explanation :: string
  predictions :: "prediction list"
  timestamp_utc :: string
  runtime_deepstack_base_url :: string
  runtime_model_name :: string

definition build_prediction_response ::
  "env \<Rightarrow> pyval \<Rightarrow> string \<Rightarrow> string \<Rightarrow> exn + prediction_response" where
  "build_prediction_response env deepstack_payload ep mname =
     (case extract_predictions env deepstack_payload of
        Inl e \<Rightarrow> Inl e
      | Inr preds \<Rightarrow>
          (case preds of
             [] \<Rightarrow> Inl (PyError IndexError ''list index out of range'')
           | top_prediction # rest \<Rightarrow>
               (let prof = confidence_profile (confidence_percent top_prediction)
                in Inr \<lparr>model_name = mname,
                        resp_endpoint = ep,
                        fruit = label top_prediction,
                        top_confidence = confidence top_prediction,
                        top_confidence_percent = confidence_percent top_prediction,
                        confidence_level = level prof,
                        confidence_bar_class = bar_class prof,
                        confidence_explanation = explanation prof,
                        predictions = take 5 preds,
                        timestamp_utc = utcnow_isoformat env,
                        runtime_deepstack_base_url =
                          (case getenv_base_url env of
                             None \<Rightarrow> ''http://localhost:5050'' | Some u \<Rightarrow> u),
                        runtime_model_name = mname\<rparr>)))"

section \<open>The local engine: utils/local_onnx.py\<close>

text \<open>
  Arrays of numpy are lists of reals (nested for the image); float32 arithmetic is exact
  real arithmetic here.
\<close>

definition safe_float :: "env \<Rightarrow> pyval \<Rightarrow> real \<Rightarrow> exn + real" where
  "safe_float env v dflt =
     (case py_float env v of
        Inr x \<Rightarrow> Inr x
      | Inl e \<Rightarrow> if is_instance e [TypeError, ValueError] then Inr dflt else Inl e)"

definition load_session :: "env \<Rightarrow> string \<Rightarrow> exn + session" where
  "load_session env model_path =
     (case load_model env model_path of
        ModelMissing \<Rightarrow> Inl (LocalModelError (''Local ONNX model file not found: '' @ model_path))
      | ModelUnloadable e \<Rightarrow> Inl e
      | ModelLoaded s \<Rightarrow> Inr s)"

definition load_config :: "env \<Rightarrow> string \<Rightarrow> exn + pyval" where
  "load_config env config_path =
     (case read_config env config_path of
        ConfigMissing \<Rightarrow>
          Inl (LocalModelError (''Local model config file not found: '' @ config_path))
      | ConfigUnreadable e \<Rightarrow> Inl e
      | ConfigJson config \<Rightarrow> Inr config)"

text \<open>
  \<open>_softmax(logits)\<close>. \<open>np.max\<close> of an array with no element raises \<open>ValueError\<close>.
  The exponential is the real one: it is never 0, where the float32 one underflows to 0
  for an entry far below the maximum. Which branch is taken, the length of the result and
  the bound \<open>1 \<le> denominator\<close> are the same in both; the exact values of the
  probabilities are those of the model only.
\<close>

definition softmax :: "real list \<Rightarrow> exn + real list" where
  "softmax logits =
     (if logits = [] then
        Inl (PyError ValueError
               ''zero-size array to reduction operation maximum which has no identity'')
      else
        (let shifted = map (\<lambda>x. x - Max (set logits)) logits;
             exp_values = map exp shifted;
             denominator = sum_list exp_values
         in if denominator \<le> 0 then Inr (map (\<lambda>x. 0) logits)
            else Inr (map (\<lambda>x. x / denominator) exp_values)))"

text \<open>
  The normalisation of the image array, element by element, as the two branches of
  \<open>predict_with_local_onnx\<close> compute it.
\<close>

definition normalize_pixel :: "real \<Rightarrow> real \<Rightarrow> real \<Rightarrow> real" where
  "normalize_pixel std mean x =
     (if 10 \<le> std \<and> 0 < mean \<and> mean < 1
      then (x / std - mean) / max mean (1 / 1000000)
      else (x - mean) / std)"

definition normalize_image :: "real \<Rightarrow> real \<Rightarrow> real list list list \<Rightarrow> real list list list" where
  "normalize_image std mean image_array = map (map (map (normalize_pixel std mean))) image_array"

text \<open>
  \<open>normalized.transpose(2, 0, 1)[None, :, :, :]\<close>: from height, width, channel (three
  channels after \<open>convert("RGB")\<close>) to a batch of one in channel, height, width order.
\<close>

definition to_input_tensor :: "real list list list \<Rightarrow> real list list list list" where
  "to_input_tensor normalized =
     [map (\<lambda>c. map (\<lambda>row. map (\<lambda>px. px ! c) row) normalized) [0 ..< 3]]"

record local_prediction =
  local_label :: string
  local_confidence :: real

text \<open>The loop over \<open>enumerate(probabilities)\<close>.\<close>

fun label_predictions ::
  "env \<Rightarrow> pyval \<Rightarrow> (nat \<times> real) list \<Rightarrow> exn + local_prediction list" where
  "label_predictions env label_map [] = Inr []"
| "label_predictions env label_map ((class_index, probability) # remaining) =
     (case label_map of
        PDict m \<Rightarrow>
          (case label_predictions env label_map remaining of
             Inl e \<Rightarrow> Inl e
           | Inr ps \<Rightarrow>
               Inr (\<lparr>local_label =
                        str_of env (dict_get_default m (str_nat class_index)
                                      (PStr (''class_'' @ str_nat class_index))),
                      local_confidence = probability\<rparr> # ps))
      | other \<Rightarrow> Inl (PyError AttributeError ''object has no attribute get''))"

text \<open>
  \<open>config.get(key, default)\<close> on what \<open>json.load\<close> returned, which need not be a
  dictionary.
\<close>

definition config_get :: "pyval \<Rightarrow> string \<Rightarrow> pyval \<Rightarrow> exn + pyval" where
  "config_get config k dflt =
     (case config of
        PDict d \<Rightarrow> Inr (dict_get_default d k dflt)
      | other \<Rightarrow> Inl (PyError AttributeError ''object has no attribute get''))"

text \<open>
  The numbers \<open>predict_with_local_onnx\<close> reads from the configuration, in the order it
  reads them: width, height, mean, std (a zero std becomes 255) and the label map.
\<close>

record local_settings =
  width :: int
  height :: int
  mean :: real
  std :: real
  label_map :: pyval

definition read_settings :: "env \<Rightarrow> pyval \<Rightarrow> exn + local_settings" where
  "read_settings env config =
     (case config_get config ''width'' (PInt 224) of Inl e \<Rightarrow> Inl e | Inr wv \<Rightarrow>
      case py_int env wv of Inl e \<Rightarrow> Inl e | Inr w \<Rightarrow>
      case config_get config ''height'' (PInt 224) of Inl e \<Rightarrow> Inl e | Inr hv \<Rightarrow>
      case py_int env hv of Inl e \<Rightarrow> Inl e | Inr h \<Rightarrow>
      case config_get config ''mean'' (PFloat (1 / 2)) of Inl e \<Rightarrow> Inl e | Inr mv \<Rightarrow>
      case safe_float env mv (1 / 2) of Inl e \<Rightarrow> Inl e | Inr m \<Rightarrow>
      case config_get config ''std'' (PInt 255) of Inl e \<Rightarrow> Inl e | Inr sv \<Rightarrow>
      case safe_float env sv 255 of Inl e \<Rightarrow> Inl e | Inr s \<Rightarrow>
      case config_get config ''map'' (PDict []) of Inl e \<Rightarrow> Inl e | Inr lm \<Rightarrow>
        Inr \<lparr>width = w, height = h, mean = m, std = (if s = 0 then 255 else s),
             label_map = lm\<rparr>)"

definition predict_with_local_onnx ::
  "env \<Rightarrow> uploaded_file \<Rightarrow> string \<Rightarrow> string \<Rightarrow> exn + local_prediction list" where
  "predict_with_local_onnx env f model_path config_path =
     (case load_config env config_path of Inl e \<Rightarrow> Inl e | Inr config \<Rightarrow>
      case load_session env model_path of Inl e \<Rightarrow> Inl e | Inr sess \<Rightarrow>
      case read_settings env config of Inl e \<Rightarrow> Inl e | Inr cfg \<Rightarrow>
      case open_image env (stream f) (width cfg) (height cfg) of
        Inl cause \<Rightarrow>
          Inl (LocalModelError (''Could not read image for local ONNX inference: '' @ cause))
      | Inr image_array \<Rightarrow>
          (let input_tensor = to_input_tensor (normalize_image (std cfg) (mean cfg) image_array)
           in case input_names sess of
                [] \<Rightarrow> Inl (PyError IndexError ''list index out of range'')
              | input_name # others \<Rightarrow>
                  (case session_run sess input_name input_tensor of
                     Inl cause \<Rightarrow> Inl (LocalModelError (''Local ONNX inference failed: '' @ cause))
                   | Inr output_values \<Rightarrow>
                       (case softmax output_values of
                          Inl e \<Rightarrow> Inl e
                        | Inr probabilities \<Rightarrow>
                            (case label_predictions env (label_map cfg)
                                    (enumerate 0 probabilities) of
                               Inl e \<Rightarrow> Inl e
                             | Inr preds \<Rightarrow> Inr (sorted_reverse local_confidence preds))))))"

section \<open>The request handler: app.py\<close>

record app_config =
  DEEPSTACK_BASE_URL :: string
  DEEPSTACK_MODEL_NAME :: string
  DEEPSTACK_TIMEOUT_SECONDS :: int
  ENABLE_LOCAL_ONNX_FALLBACK :: bool

text \<open>
  The JSON document of a reply: a key the handler does not write is \<open>None\<close>. The
  \<open>details\<close> are the dictionary of a \<open>DeepstackClientError\<close> or the text of an
  unexpected exception.
\<close>

record json_body =
  success :: bool
  fallback :: "bool option"
  warning :: "string option"
  error :: "string option"
  details :: "pyval option"
  data :: "prediction_response option"

datatype log_level = INFO | ERROR | EXCEPTION

type_synonym log = "(log_level \<times> string) list"

type_synonym reply = "json_body \<times> int"

definition local_prediction_dict :: "local_prediction \<Rightarrow> pyval" where
  "local_prediction_dict p =
     PDict [(''label'', PStr (local_label p)), (''confidence'', PFloat (local_confidence p))]"

text \<open>
  The body of the \<open>try\<close> block of \<open>predict\<close>: the remote call, the log line, the
  response document. The log written so far comes back with the outcome.
\<close>

definition remote_attempt :: "env \<Rightarrow> app_config \<Rightarrow> uploaded_file \<Rightarrow> log \<times> (exn + reply)" where
  "remote_attempt env cfg f =
     (case call_custom_model env f (DEEPSTACK_BASE_URL cfg) (DEEPSTACK_MODEL_NAME cfg)
             (DEEPSTACK_TIMEOUT_SECONDS cfg) of
        Inl e \<Rightarrow> ([], Inl e)
      | Inr deepstack_result \<Rightarrow>
          (let lg = [(INFO, ''DeepStack response status='' @ str_int (status_code deepstack_result)
                        @ '' endpoint='' @ endpoint deepstack_result
                        @ '' preview='' @ response_preview deepstack_result)]
           in case build_prediction_response env (payload deepstack_result)
                     (endpoint deepstack_result) (DEEPSTACK_MODEL_NAME cfg) of
                Inl e \<Rightarrow> (lg, Inl e)
              | Inr d \<Rightarrow>
                  (lg, Inr (\<lparr>success = True, fallback = None, warning = None, error = None,
                             details = None, data = Some d\<rparr>, 200))))"

text \<open>
  The body of the inner \<open>try\<close> block, entered from the handler of a
  \<open>DeepstackClientError\<close>: the local engine, then the response document.
\<close>

definition local_attempt :: "env \<Rightarrow> app_config \<Rightarrow> uploaded_file \<Rightarrow> exn + reply" where
  "local_attempt env cfg f =
     (case predict_with_local_onnx env f ''Fruits.onnx'' ''config.json'' of
        Inl e \<Rightarrow> Inl e
      | Inr local_predictions \<Rightarrow>
          (let local_payload =
                 PDict [(''predictions'', PList (map local_prediction_dict local_predictions))]
           in case build_prediction_response env local_payload ''local://onnx/Fruits.onnx''
                     (DEEPSTACK_MODEL_NAME cfg) of
                Inl e \<Rightarrow> Inl e
              | Inr d \<Rightarrow>
                  Inr (\<lparr>success = True, fallback = Some True,
                        warning = Some (''DeepStack custom endpoint was not found. ''
                                        @ ''Used local ONNX fallback model.''),
                        error = None, details = None, data = Some d\<rparr>, 200)))"

text \<open>What the handler of a \<open>DeepstackClientError\<close> logs and returns after the fallback
  was not taken or has failed with a \<open>LocalModelError\<close>.\<close>

definition surface_error :: "env \<Rightarrow> string \<Rightarrow> int \<Rightarrow> (string \<times> pyval) list \<Rightarrow> log \<times> reply" where
  "surface_error env msg st det =
     ([(ERROR, ''DeepStack error: '' @ msg @ '' | details='' @ str_of env (PDict det))],
      (\<lparr>success = False, fallback = None, warning = None, error = Some msg,
        details = Some (PDict det), data = None\<rparr>, st))"

text \<open>What the clause \<open>except Exception\<close> logs and returns.\<close>

definition server_error :: "exn \<Rightarrow> log \<times> reply" where
  "server_error e =
     ([(EXCEPTION, ''Unexpected prediction error'')],
      (\<lparr>success = False, fallback = None, warning = None,
        error = Some ''Unexpected server error while processing the prediction.'',
        details = Some (PStr (str_exn e)), data = None\<rparr>, 500))"

text \<open>
  \<open>predict()\<close>, with the uploaded file of the request as its argument. The result is
  the log and either the reply or, as \<open>Inl\<close>, the exception that leaves the function.
  An exception raised inside the handler of \<open>DeepstackClientError\<close> is not offered to
  the clause \<open>except Exception\<close> of the same \<open>try\<close> statement: the inner \<open>try\<close>
  catches \<open>LocalModelError\<close>, every other exception leaves \<open>predict\<close>.
\<close>

definition predict :: "env \<Rightarrow> app_config \<Rightarrow> uploaded_file option \<Rightarrow> log \<times> (exn + reply)" where
  "predict env cfg request_file =
     (case validate_image_upload env request_file of
        (uploaded, validation_error) \<Rightarrow>
          if or_empty validation_error \<noteq> [] then
            ([], Inr (\<lparr>success = False, fallback = None, warning = None,
                       error = validation_error, details = None, data = None\<rparr>, 400))
          else
            (case uploaded of
               None \<Rightarrow>
                 (case server_error (PyError AttributeError
                          ''NoneType object has no attribute filename'') of
                    (lg, r) \<Rightarrow> (lg, Inr r))
             | Some f \<Rightarrow>
                 (case remote_attempt env cfg f of
                    (lg, Inr r) \<Rightarrow> (lg, Inr r)
                  | (lg, Inl (DeepstackClientError msg st det)) \<Rightarrow>
                      (if st = 404 \<and> ENABLE_LOCAL_ONNX_FALLBACK cfg then
                         (case local_attempt env cfg f of
                            Inr r \<Rightarrow> (lg, Inr r)
                          | Inl (LocalModelError local_msg) \<Rightarrow>
                              (case surface_error env msg st det of
                                 (lg2, r) \<Rightarrow>
                                   (lg @ [(ERROR, ''Local ONNX fallback failed: '' @ local_msg)] @ lg2,
                                    Inr r))
                          | Inl e \<Rightarrow> (lg, Inl e))
                       else
                         (case surface_error env msg st det of (lg2, r) \<Rightarrow> (lg @ lg2, Inr r)))
                  | (lg, Inl e) \<Rightarrow>
                      (case server_error e of (lg2, r) \<Rightarrow> (lg @ lg2, Inr r)))))"

section \<open>The properties, in the words of the specification\<close>

text \<open>
  A normalised pair is in range when the score is in \<open>[0, 1]\<close>, the percent is in
  \<open>[0, 100]\<close> and the percent is a hundred times the score.
\<close>

definition in_range :: "exn + real \<times> real \<Rightarrow> bool" where
  "in_range r =
     (case r of
        Inl e \<Rightarrow> False
      | Inr (score, percent) \<Rightarrow>
          0 \<le> score \<and> score \<le> 1 \<and> 0 \<le> percent \<and> percent \<le> 100 \<and> percent = score * 100)"

fun is_dict :: "pyval \<Rightarrow> bool" where
  "is_dict (PDict d) = True"
| "is_dict v = False"

text \<open>
  The dictionaries of a payload that carry a label/confidence pair, in the order in which
  extraction meets them: the payload itself when it has the key \<open>label\<close>, then the
  dictionary entries of its \<open>predictions\<close> list.
\<close>

fun dict_entries :: "pyval list \<Rightarrow> (string \<times> pyval) list list" where
  "dict_entries [] = []"
| "dict_entries (PDict d # items) = d # dict_entries items"
| "dict_entries (item # items) = dict_entries items"

definition candidates :: "(string \<times> pyval) list \<Rightarrow> (string \<times> pyval) list list" where
  "candidates d =
     (if has_key d ''label'' then [d] else [])
     @ (case dict_get d ''predictions'' of PList items \<Rightarrow> dict_entries items | other \<Rightarrow> [])"

text \<open>
  A dictionary without one of its keys, and the outcome of an extraction with the payload
  in the details of a \<open>DeepstackClientError\<close> replaced: a payload whose \<open>error\<close> field
  counts as absent is extracted like the payload without that field, except that the
  details of a failure name the payload as it came.
\<close>

definition without_key :: "string \<Rightarrow> (string \<times> pyval) list \<Rightarrow> (string \<times> pyval) list" where
  "without_key k d = filter (\<lambda>kv. fst kv \<noteq> k) d"

fun with_payload_details :: "pyval \<Rightarrow> exn + prediction list \<Rightarrow> exn + prediction list" where
  "with_payload_details pl (Inl (DeepstackClientError msg st det)) =
     Inl (DeepstackClientError msg st [(''response'', pl)])"
| "with_payload_details pl r = r"

text \<open>
  The predictions of the local engine before sorting: one per class, in the order of the
  class index, labelled from the map of the configuration.
\<close>

definition class_predictions ::
  "env \<Rightarrow> (string \<times> pyval) list \<Rightarrow> real list \<Rightarrow> local_prediction list" where
  "class_predictions env m probs =
     map (\<lambda>(class_index, probability).
            \<lparr>local_label = str_of env (dict_get_default m (str_nat class_index)
                                         (PStr (''class_'' @ str_nat class_index))),
             local_confidence = probability\<rparr>)
         (enumerate 0 probs)"

text \<open>The normalisation rule of the local engine as the specification words it.\<close>

definition spec_normalize_pixel :: "real \<Rightarrow> real \<Rightarrow> real \<Rightarrow> real" where
  "spec_normalize_pixel s m x =
     (if 10 \<le> s \<and> 0 < m \<and> m < 1 then (x / s - m) / m else (x - m) / s)"

text \<open>
  Two environments agree off the local engine when they differ at most in the
  configuration file, the model file and the image decoder.
\<close>

definition agree_off_local :: "env \<Rightarrow> env \<Rightarrow> bool" where
  "agree_off_local env env' \<longleftrightarrow>
     float_of_str env' = float_of_str env \<and> int_of_str env' = int_of_str env
     \<and> str_of env' = str_of env \<and> secure_filename env' = secure_filename env
     \<and> utcnow_isoformat env' = utcnow_isoformat env \<and> getenv_base_url env' = getenv_base_url env
     \<and> requests_post env' = requests_post env"

text \<open>The classes of exception the handler tells apart.\<close>

fun is_local_model_error :: "exn \<Rightarrow> bool" where
  "is_local_model_error (LocalModelError msg) = True"
| "is_local_model_error e = False"

fun is_deepstack_client_error :: "exn \<Rightarrow> bool" where
  "is_deepstack_client_error (DeepstackClientError msg st det) = True"
| "is_deepstack_client_error e = False"

section \<open>An instance of the parameters\<close>

text \<open>
  To run the model on examples, the parameters are instantiated: a sanitiser that does
  what \<open>secure_filename\<close> does to an ASCII name on a POSIX system; a number parser for
  plain digit strings; \<open>str\<close> for \<open>None\<close>, Booleans, integers and strings (the
  examples print nothing else); a remote service that answers 404; a configuration file
  with two labels; a one-pixel image; a model with three classes of equal logits.
\<close>

fun split_words :: "string \<Rightarrow> string \<Rightarrow> string list" where
  "split_words cur [] = (if cur = [] then [] else [cur])"
| "split_words cur (c # cs) =
     (if is_space c then (if cur = [] then split_words [] cs else cur # split_words [] cs)
      else split_words (cur @ [c]) cs)"

definition filename_char :: "char \<Rightarrow> bool" where
  "filename_char c \<longleftrightarrow>
     (CHR ''A'' \<le> c \<and> c \<le> CHR ''Z'') \<or> (CHR ''a'' \<le> c \<and> c \<le> CHR ''z'')
     \<or> (CHR ''0'' \<le> c \<and> c \<le> CHR ''9'') \<or> c \<in> {CHR ''_'', CHR ''.'', CHR ''-''}"

definition ascii_secure_filename :: "string \<Rightarrow> string" where
  "ascii_secure_filename s =
     (let ascii = filter (\<lambda>c. of_char c < (128::nat)) s;
          spaced = map (\<lambda>c. if c = CHR ''/'' then CHR '' '' else c) ascii;
          joined = join ''_'' (split_words [] spaced);
          kept = filter filename_char joined;
          edge = (\<lambda>c. c = CHR ''.'' \<or> c = CHR ''_'')
      in rev (dropWhile edge (rev (dropWhile edge kept))))"

definition digits_to_nat :: "string \<Rightarrow> nat option" where
  "digits_to_nat s =
     (if s \<noteq> [] \<and> list_all (\<lambda>c. CHR ''0'' \<le> c \<and> c \<le> CHR ''9'') s
      then Some (foldl (\<lambda>n c. 10 * n + (of_char c - 48)) 0 s) else None)"

fun demo_str :: "pyval \<Rightarrow> string" where
  "demo_str PNone = ''None''"
| "demo_str (PBool b) = (if b then ''True'' else ''False'')"
| "demo_str (PInt n) = str_int n"
| "demo_str (PStr s) = s"
| "demo_str v = []"

definition demo_config :: pyval where
  "demo_config =
     PDict [(''width'', PInt 1), (''height'', PInt 1), (''mean'', PFloat (1 / 2)),
            (''std'', PInt 255),
            (''map'', PDict [(''0'', PStr ''Apple''), (''1'', PStr ''Banana'')])]"

definition demo_session :: session where
  "demo_session = \<lparr>input_names = [''input''], session_run = (\<lambda>name tensor. Inr [1, 1, 1])\<rparr>"

definition demo_env :: env where
  "demo_env =
     \<lparr>float_of_str = (\<lambda>s. map_option of_nat (digits_to_nat s)),
      int_of_str = (\<lambda>s. map_option int (digits_to_nat s)),
      str_of = demo_str,
      secure_filename = ascii_secure_filename,
      utcnow_isoformat = ''2026-01-01T00:00:00+00:00'',
      getenv_base_url = None,
      requests_post = (\<lambda>ep fname bytes mtype seconds. Response 404 ''Not Found'' None),
      read_config = (\<lambda>path. if path = ''config.json'' then ConfigJson demo_config else ConfigMissing),
      load_model = (\<lambda>path. if path = ''Fruits.onnx'' then ModelLoaded demo_session else ModelMissing),
      open_image = (\<lambda>bytes w h. Inr (replicate (nat h) (replicate (nat w) [255, 0, 51])))\<rparr>"

definition demo_file :: uploaded_file where
  "demo_file = \<lparr>filename = Some ''apple.png'', mimetype = Some ''image/png'', stream = ''PNG''\<rparr>"

definition demo_app :: app_config where
  "demo_app =
     \<lparr>DEEPSTACK_BASE_URL = ''http://localhost:5050'',
      DEEPSTACK_MODEL_NAME = ''FruitsRecognition'',
      DEEPSTACK_TIMEOUT_SECONDS = 45,
      ENABLE_LOCAL_ONNX_FALLBACK = True\<rparr>"

definition demo_payload :: pyval where
  "demo_payload =
     PDict [(''label'', PStr ''Kiwi''), (''confidence'', PInt 30),
            (''predictions'',
             PList [PDict [(''label'', PStr ''Pear''), (''confidence'', PInt 30)],
                    PStr ''noise'',
                    PDict [(''label'', PStr ''Plum''), (''confidence'', PFloat (7 / 10))],
                    PDict [(''label'', PStr ''Fig''), (''confidence'', PInt 30)]])]"

text \<open>
  Variants of the instance: no configuration file; a configuration file that is not JSON;
  the fallback switched off. Then the details of the 404 error of the instance, and the
  response document its local engine leads to.
\<close>

definition demo_env_no_config :: env where
  "demo_env_no_config = demo_env\<lparr>read_config := (\<lambda>path. ConfigMissing)\<rparr>"

definition demo_env_bad_config :: env where
  "demo_env_bad_config =
     demo_env\<lparr>read_config :=
       (\<lambda>path. ConfigUnreadable (PyError ValueError ''Expecting value: line 1 column 1 (char 0)''))\<rparr>"

definition demo_app_no_fallback :: app_config where
  "demo_app_no_fallback = demo_app\<lparr>ENABLE_LOCAL_ONNX_FALLBACK := False\<rparr>"

definition demo_details :: "(string \<times> pyval) list" where
  "demo_details =
     [(''endpoint'', PStr ''http://localhost:5050/v1/vision/custom/FruitsRecognition''),
      (''response_preview'', PStr ''Not Found''),
      (''hint'', PStr (''Current DeepStack build may not expose /v1/vision/custom/<model> ''
                       @ ''for ONNX custom models.''))]"

definition demo_data :: prediction_response where
  "demo_data =
     \<lparr>model_name = ''FruitsRecognition'',
      resp_endpoint = ''local://onnx/Fruits.onnx'',
      fruit = ''Apple'',
      top_confidence = 3333 / 10000,
      top_confidence_percent = 3333 / 100,
      confidence_level = ''low'',
      confidence_bar_class = ''danger'',
      confidence_explanation =
        ''Low confidence. The image may be unclear or outside model training patterns.'',
      predictions =
        [\<lparr>label = ''Apple'', confidence = 3333 / 10000, confidence_percent = 3333 / 100\<rparr>,
         \<lparr>label = ''Banana'', confidence = 3333 / 10000, confidence_percent = 3333 / 100\<rparr>,
         \<lparr>label = ''class_2'', confidence = 3333 / 10000, confidence_percent = 3333 / 100\<rparr>],
      timestamp_utc = ''2026-01-01T00:00:00+00:00'',
      runtime_deepstack_base_url = ''http://localhost:5050'',
      runtime_model_name = ''FruitsRecognition''\<rparr>"

section \<open>Auxiliary facts\<close>

lemma str_nat_small:
  "str_nat 0 = ''0''" "str_nat (Suc 0) = ''1''" "str_nat (Suc (Suc 0)) = ''2''"
  by code_simp+

lemma sorted_reverse_descending: "sorted_wrt (\<lambda>a b. k b \<le> k a) (sorted_reverse k xs)"
proof -
  have "sorted_wrt (\<lambda>a b. b \<le> a) (map k (sorted_reverse k xs))"
    by (simp add: sorted_reverse_def rev_map [symmetric] sorted_wrt_rev del: rev_map)
  then show ?thesis by (simp add: sorted_wrt_map)
qed

lemma sorted_reverse_stable:
  "filter (\<lambda>x. k x = v) (sorted_reverse k xs) = filter (\<lambda>x. k x = v) xs"
  by (simp add: sorted_reverse_def rev_filter [symmetric] sort_key_stable)

lemma sorted_reverse_Nil_iff: "sorted_reverse k xs = [] \<longleftrightarrow> xs = []"
  by (metis length_0_conv length_rev length_sort sorted_reverse_def)

lemma demo_local_run:
  "predict_with_local_onnx demo_env demo_file ''Fruits.onnx'' ''config.json'' =
     Inr [\<lparr>local_label = ''Apple'', local_confidence = 1 / 3\<rparr>,
          \<lparr>local_label = ''Banana'', local_confidence = 1 / 3\<rparr>,
          \<lparr>local_label = ''class_2'', local_confidence = 1 / 3\<rparr>]"
  by (simp add: predict_with_local_onnx_def demo_env_def demo_file_def load_config_def
      load_session_def read_settings_def demo_config_def config_get_def dict_get_default_def
      safe_float_def float_overflows_def demo_session_def softmax_def Let_def
      sorted_reverse_def str_nat_small)

section \<open>Confidence normalisation\<close>

lemma clamp_branch:
  fixes x :: real
  shows "in_range
           (let confidence_float = max 0 x
            in if 1 < confidence_float
               then (let confidence_percent = min confidence_float 100
                     in Inr (confidence_percent / 100, confidence_percent))
               else Inr (confidence_float, confidence_float * 100))"
  by (simp add: in_range_def Let_def min_def max_def)

lemma coerce_total:
  assumes "\<not> (\<exists>n. v = PInt n \<and> float_overflows n)"
  shows "\<exists>x. (case py_float env v of
                Inr x \<Rightarrow> Inr x
              | Inl e \<Rightarrow> if is_instance e [TypeError, ValueError] then Inr 0 else Inl e) = Inr x"
  using assms by (cases v) (auto split: option.splits)

text \<open>
  Whatever the raw value, unless it is an integer beyond the range of a double: the
  function returns a pair, the score is in \<open>[0, 1]\<close>, the percent is in \<open>[0, 100]\<close>
  and the percent is a hundred times the score.
\<close>

lemma normalize_confidence_in_range:
  assumes "\<not> (\<exists>n. v = PInt n \<and> float_overflows n)"
  shows "in_range (normalize_confidence env v)"
proof -
  from coerce_total [OF assms] obtain x where
    "(case py_float env v of
        Inr x \<Rightarrow> Inr x
      | Inl e \<Rightarrow> if is_instance e [TypeError, ValueError] then Inr 0 else Inl e) = Inr x"
    by blast
  then have "normalize_confidence env v =
      (let confidence_float = max 0 x
       in if 1 < confidence_float
          then (let confidence_percent = min confidence_float 100
                in Inr (confidence_percent / 100, confidence_percent))
          else Inr (confidence_float, confidence_float * 100))"
    by (simp add: normalize_confidence_def)
  then show ?thesis
    by (simp only: clamp_branch)
qed

lemma normalize_confidence_examples:
  "normalize_confidence env (PFloat 1) = Inr (1, 100)"
  "normalize_confidence env (PFloat (42 / 100)) = Inr (42 / 100, 42)"
  "normalize_confidence env (PInt 85) = Inr (85 / 100, 85)"
  "normalize_confidence env (PInt (- 5)) = Inr (0, 0)"
  "normalize_confidence env PNone = Inr (0, 0)"
  "normalize_confidence demo_env (PStr ''bad'') = Inr (0, 0)"
  by (simp_all add: normalize_confidence_def float_overflows_def demo_env_def digits_to_nat_def)

text \<open>
  C1. The claim: for every raw confidence value, \<open>_normalize_confidence\<close> returns a pair
  (score, percent), the coercion to float defaulting to 0.0 on failure. The code at the
  integer \<open>10^400\<close>, which a JSON document can hold: \<open>float(value)\<close> raises
  \<open>OverflowError\<close>, the \<open>except\<close> clause catches \<open>TypeError\<close> and \<open>ValueError\<close>
  only, and the exception leaves the function; no pair is returned.
\<close>

theorem normalize_confidence_huge_int:
  "normalize_confidence env (PInt (10 ^ 400)) =
     Inl (PyError OverflowError ''int too large to convert to float'')"
  by (simp add: normalize_confidence_def float_overflows_def)

section \<open>Extraction of the predictions\<close>

lemma extract_items_found:
  "extract_items env acc items = Inr r \<Longrightarrow>
     \<exists>new. r = acc @ new \<and> map (prediction_of env) (dict_entries items) = map Inr new"
proof (induction env acc items arbitrary: r rule: extract_items.induct)
  case (2 env acc d items)
  from "2.prems" obtain p where p: "prediction_of env d = Inr p"
    and rest: "extract_items env (acc @ [p]) items = Inr r"
    by (auto split: sum.splits)
  from "2.IH" [OF p rest] obtain new where
    "r = (acc @ [p]) @ new" "map (prediction_of env) (dict_entries items) = map Inr new"
    by blast
  then have "r = acc @ (p # new) \<and>
      map (prediction_of env) (dict_entries (PDict d # items)) = map Inr (p # new)"
    using p by simp
  then show ?case by blast
qed auto

lemma items_part_found:
  assumes "(case dict_get d ''predictions'' of
              PList items \<Rightarrow> extract_items env single items
            | other \<Rightarrow> Inr single) = Inr found"
  shows "\<exists>new. found = single @ new \<and>
           map (prediction_of env)
             (case dict_get d ''predictions'' of PList items \<Rightarrow> dict_entries items | other \<Rightarrow> [])
           = map Inr new"
proof (cases "dict_get d ''predictions''")
  case (PList items)
  with assms have "extract_items env single items = Inr found" by simp
  from extract_items_found [OF this] PList show ?thesis by simp
qed (use assms in auto)

lemma label_part_found:
  assumes "(if has_key d ''label''
            then (case prediction_of env d of Inl e \<Rightarrow> Inl e | Inr p \<Rightarrow> Inr [p])
            else Inr []) = Inr single"
  shows "map (prediction_of env) (if has_key d ''label'' then [d] else []) = map Inr single"
  using assms by (auto split: if_splits sum.splits)

lemma extract_predictions_found:
  assumes "extract_predictions env pl = Inr ps"
  shows "\<exists>d found. pl = PDict d \<and> found \<noteq> []
           \<and> map (prediction_of env) (candidates d) = map Inr found
           \<and> ps = sorted_reverse confidence_percent found"
proof (cases pl)
  case (PDict d)
  from assms PDict obtain single found where
    single: "(if has_key d ''label''
              then (case prediction_of env d of Inl e \<Rightarrow> Inl e | Inr p \<Rightarrow> Inr [p])
              else Inr []) = Inr single"
    and found: "(case dict_get d ''predictions'' of
                   PList items \<Rightarrow> extract_items env single items
                 | other \<Rightarrow> Inr single) = Inr found"
    and rest: "found \<noteq> []" "ps = sorted_reverse confidence_percent found"
    unfolding extract_predictions_def
    by (simp split: if_splits sum.splits)
  from items_part_found [OF found] obtain new where
    new: "found = single @ new"
      "map (prediction_of env)
         (case dict_get d ''predictions'' of PList items \<Rightarrow> dict_entries items | other \<Rightarrow> [])
       = map Inr new"
    by blast
  have "map (prediction_of env) (candidates d) = map Inr found"
    using label_part_found [OF single] new by (simp add: candidates_def)
  with PDict rest show ?thesis by blast
qed (use assms in \<open>simp_all add: extract_predictions_def\<close>)


lemma label_predictions_confidences:
  "label_predictions env lm ixs = Inr ps \<Longrightarrow> map local_confidence ps = map snd ixs"
  by (induction env lm ixs arbitrary: ps rule: label_predictions.induct)
     (auto split: pyval.splits sum.splits)

lemma softmax_length: "softmax logits = Inr probs \<Longrightarrow> logits \<noteq> [] \<and> length probs = length logits"
  by (auto simp: softmax_def Let_def split: if_splits)

lemma label_predictions_dict:
  "label_predictions env (PDict m) ixs =
     Inr (map (\<lambda>(class_index, probability).
                 \<lparr>local_label = str_of env (dict_get_default m (str_nat class_index)
                                              (PStr (''class_'' @ str_nat class_index))),
                  local_confidence = probability\<rparr>) ixs)"
  by (induction ixs) auto

lemma label_predictions_needs_dict:
  assumes "label_predictions env lm ixs = Inr ps" "ixs \<noteq> []"
  shows "\<exists>m. lm = PDict m"
  using assms by (cases ixs; cases lm) auto

lemma local_chain:
  assumes "predict_with_local_onnx env f model_path config_path = Inr qs"
  shows "\<exists>config sess cfg image_array input_name others logits probs m.
           load_config env config_path = Inr config
         \<and> load_session env model_path = Inr sess
         \<and> read_settings env config = Inr cfg
         \<and> open_image env (stream f) (width cfg) (height cfg) = Inr image_array
         \<and> input_names sess = input_name # others
         \<and> session_run sess input_name
               (to_input_tensor (normalize_image (std cfg) (mean cfg) image_array)) = Inr logits
         \<and> softmax logits = Inr probs
         \<and> label_map cfg = PDict m
         \<and> qs = sorted_reverse local_confidence (class_predictions env m probs)"
proof -
  from assms obtain config sess cfg image_array input_name others logits probs unsorted where
    *: "load_config env config_path = Inr config" "load_session env model_path = Inr sess"
       "read_settings env config = Inr cfg"
       "open_image env (stream f) (width cfg) (height cfg) = Inr image_array"
       "input_names sess = input_name # others"
       "session_run sess input_name
          (to_input_tensor (normalize_image (std cfg) (mean cfg) image_array)) = Inr logits"
       "softmax logits = Inr probs"
       "label_predictions env (label_map cfg) (enumerate 0 probs) = Inr unsorted"
       "qs = sorted_reverse local_confidence unsorted"
    unfolding predict_with_local_onnx_def
    by (auto simp: Let_def split: sum.splits list.splits)
  from softmax_length [OF *(7)] have "enumerate 0 probs \<noteq> []"
    by (cases probs) auto
  from label_predictions_needs_dict [OF *(8) this] obtain m where m: "label_map cfg = PDict m"
    by blast
  with *(8) have "unsorted = class_predictions env m probs"
    by (simp add: label_predictions_dict class_predictions_def)
  with * m show ?thesis by blast
qed

lemma local_found:
  assumes "predict_with_local_onnx env f model_path config_path = Inr qs"
  shows "\<exists>lm logits probs unsorted. softmax logits = Inr probs
           \<and> label_predictions env lm (enumerate 0 probs) = Inr unsorted
           \<and> qs = sorted_reverse local_confidence unsorted"
  using assms unfolding predict_with_local_onnx_def
  by (auto simp: Let_def split: sum.splits list.splits)

text \<open>
  C6. Every list that \<open>_extract_predictions\<close> returns is in descending order of
  \<open>confidence_percent\<close>, and every list that \<open>predict_with_local_onnx\<close> returns is in
  descending order of \<open>confidence\<close>. The sort is stable: the entries of one key stand in
  the returned list as they stood in the list before sorting. For the remote path that
  list holds the predictions of the payload's dictionaries in the order extraction met
  them. For the local path it holds the classes in the order of their index, with the
  probabilities that \<open>_softmax\<close> gives for the output of the session on the normalised
  image and the labels of the map of the configuration.
\<close>

theorem predictions_sorted_stable:
  "(extract_predictions env pl = Inr ps \<longrightarrow>
      sorted_wrt (\<lambda>a b. confidence_percent b \<le> confidence_percent a) ps
      \<and> (\<exists>d found. pl = PDict d
            \<and> map (prediction_of env) (candidates d) = map Inr found
            \<and> (\<forall>k. filter (\<lambda>p. confidence_percent p = k) ps
                   = filter (\<lambda>p. confidence_percent p = k) found)))
   \<and> (predict_with_local_onnx env f model_path config_path = Inr qs \<longrightarrow>
      sorted_wrt (\<lambda>a b. local_confidence b \<le> local_confidence a) qs
      \<and> (\<exists>config sess cfg image_array input_name others logits probs m.
             load_config env config_path = Inr config
           \<and> load_session env model_path = Inr sess
           \<and> read_settings env config = Inr cfg
           \<and> open_image env (stream f) (width cfg) (height cfg) = Inr image_array
           \<and> input_names sess = input_name # others
           \<and> session_run sess input_name
                 (to_input_tensor (normalize_image (std cfg) (mean cfg) image_array)) = Inr logits
           \<and> softmax logits = Inr probs
           \<and> label_map cfg = PDict m
           \<and> map local_confidence (class_predictions env m probs) = probs
           \<and> (\<forall>k. filter (\<lambda>p. local_confidence p = k) qs
                  = filter (\<lambda>p. local_confidence p = k) (class_predictions env m probs))))"
proof (intro conjI impI)
  assume a: "extract_predictions env pl = Inr ps"
  from extract_predictions_found [OF a] obtain d found where
    f: "pl = PDict d" "map (prediction_of env) (candidates d) = map Inr found"
       "ps = sorted_reverse confidence_percent found"
    by blast
  show "sorted_wrt (\<lambda>a b. confidence_percent b \<le> confidence_percent a) ps"
    unfolding f(3) by (rule sorted_reverse_descending)
  show "\<exists>d found. pl = PDict d
            \<and> map (prediction_of env) (candidates d) = map Inr found
            \<and> (\<forall>k. filter (\<lambda>p. confidence_percent p = k) ps
                   = filter (\<lambda>p. confidence_percent p = k) found)"
    using f by (auto simp: sorted_reverse_stable)
next
  assume a: "predict_with_local_onnx env f model_path config_path = Inr qs"
  from local_chain [OF a] obtain config sess cfg image_array input_name others logits probs m
    where c: "load_config env config_path = Inr config"
       "load_session env model_path = Inr sess"
       "read_settings env config = Inr cfg"
       "open_image env (stream f) (width cfg) (height cfg) = Inr image_array"
       "input_names sess = input_name # others"
       "session_run sess input_name
          (to_input_tensor (normalize_image (std cfg) (mean cfg) image_array)) = Inr logits"
       "softmax logits = Inr probs"
       "label_map cfg = PDict m"
       "qs = sorted_reverse local_confidence (class_predictions env m probs)"
    by blast
  show "sorted_wrt (\<lambda>a b. local_confidence b \<le> local_confidence a) qs"
    unfolding c(9) by (rule sorted_reverse_descending)
  have conf: "map local_confidence (class_predictions env m probs) = probs"
    by (simp add: class_predictions_def comp_def case_prod_unfold enumerate_eq_zip)
  have stable: "\<forall>k. filter (\<lambda>p. local_confidence p = k) qs
      = filter (\<lambda>p. local_confidence p = k) (class_predictions env m probs)"
    unfolding c(9) by (simp add: sorted_reverse_stable)
  from c(1-8) conf stable
  show "\<exists>config sess cfg image_array input_name others logits probs m.
             load_config env config_path = Inr config
           \<and> load_session env model_path = Inr sess
           \<and> read_settings env config = Inr cfg
           \<and> open_image env (stream f) (width cfg) (height cfg) = Inr image_array
           \<and> input_names sess = input_name # others
           \<and> session_run sess input_name
                 (to_input_tensor (normalize_image (std cfg) (mean cfg) image_array)) = Inr logits
           \<and> softmax logits = Inr probs
           \<and> label_map cfg = PDict m
           \<and> map local_confidence (class_predictions env m probs) = probs
           \<and> (\<forall>k. filter (\<lambda>p. local_confidence p = k) qs
                  = filter (\<lambda>p. local_confidence p = k) (class_predictions env m probs))"
    by blast
qed

lemma demo_payload_extracted:
  "extract_predictions demo_env demo_payload =
     Inr [\<lparr>label = ''Plum'', confidence = 7 / 10, confidence_percent = 70\<rparr>,
          \<lparr>label = ''Kiwi'', confidence = 3 / 10, confidence_percent = 30\<rparr>,
          \<lparr>label = ''Pear'', confidence = 3 / 10, confidence_percent = 30\<rparr>,
          \<lparr>label = ''Fig'', confidence = 3 / 10, confidence_percent = 30\<rparr>]"
  by (simp add: demo_payload_def extract_predictions_def dict_get_def dict_get_default_def
      has_key_def prediction_of_def normalize_confidence_def float_overflows_def py_round_def
      round_half_even_def sorted_reverse_def demo_env_def)

theorem predictions_sorted_stable_witness:
  "extract_predictions demo_env demo_payload =
     Inr [\<lparr>label = ''Plum'', confidence = 7 / 10, confidence_percent = 70\<rparr>,
          \<lparr>label = ''Kiwi'', confidence = 3 / 10, confidence_percent = 30\<rparr>,
          \<lparr>label = ''Pear'', confidence = 3 / 10, confidence_percent = 30\<rparr>,
          \<lparr>label = ''Fig'', confidence = 3 / 10, confidence_percent = 30\<rparr>]
   \<and> sorted_wrt (\<lambda>a b. confidence_percent b \<le> confidence_percent a)
         [\<lparr>label = ''Plum'', confidence = 7 / 10, confidence_percent = 70\<rparr>,
          \<lparr>label = ''Kiwi'', confidence = 3 / 10, confidence_percent = 30\<rparr>,
          \<lparr>label = ''Pear'', confidence = 3 / 10, confidence_percent = 30\<rparr>,
          \<lparr>label = ''Fig'', confidence = 3 / 10, confidence_percent = 30\<rparr>]
   \<and> predict_with_local_onnx demo_env demo_file ''Fruits.onnx'' ''config.json'' =
     Inr [\<lparr>local_label = ''Apple'', local_confidence = 1 / 3\<rparr>,
          \<lparr>local_label = ''Banana'', local_confidence = 1 / 3\<rparr>,
          \<lparr>local_label = ''class_2'', local_confidence = 1 / 3\<rparr>]
   \<and> sorted_wrt (\<lambda>a b. local_confidence b \<le> local_confidence a)
         [\<lparr>local_label = ''Apple'', local_confidence = 1 / 3\<rparr>,
          \<lparr>local_label = ''Banana'', local_confidence = 1 / 3\<rparr>,
          \<lparr>local_label = ''class_2'', local_confidence = 1 / 3\<rparr>]"
  using predictions_sorted_stable [of demo_env demo_payload
      "[\<lparr>label = ''Plum'', confidence = 7 / 10, confidence_percent = 70\<rparr>,
        \<lparr>label = ''Kiwi'', confidence = 3 / 10, confidence_percent = 30\<rparr>,
        \<lparr>label = ''Pear'', confidence = 3 / 10, confidence_percent = 30\<rparr>,
        \<lparr>label = ''Fig'', confidence = 3 / 10, confidence_percent = 30\<rparr>]"
      demo_file "''Fruits.onnx''" "''config.json''"
      "[\<lparr>local_label = ''Apple'', local_confidence = 1 / 3\<rparr>,
        \<lparr>local_label = ''Banana'', local_confidence = 1 / 3\<rparr>,
        \<lparr>local_label = ''class_2'', local_confidence = 1 / 3\<rparr>]"]
    demo_payload_extracted demo_local_run
  by simp

subsection \<open>What extraction collects\<close>

lemma prediction_of_total:
  assumes "\<not> (\<exists>n. dict_get c ''confidence'' = PInt n \<and> float_overflows n)"
  shows "\<exists>p. prediction_of env c = Inr p"
  using normalize_confidence_in_range [OF assms, of env]
  by (cases "normalize_confidence env (dict_get c ''confidence'')")
     (auto simp: prediction_of_def in_range_def)

lemma extract_items_total:
  assumes "\<forall>c \<in> set (dict_entries items). \<exists>p. prediction_of env c = Inr p"
  shows "\<exists>new. extract_items env acc items = Inr (acc @ new)
           \<and> map (prediction_of env) (dict_entries items) = map Inr new"
  using assms
proof (induction env acc items rule: extract_items.induct)
  case (2 env acc d items)
  from "2.prems" obtain p where p: "prediction_of env d = Inr p" by auto
  from "2.IH" [OF p] "2.prems" obtain new where
    "extract_items env ((acc @ [p])) items = Inr ((acc @ [p]) @ new)"
    "map (prediction_of env) (dict_entries items) = map Inr new"
    by auto
  with p have "extract_items env acc (PDict d # items) = Inr (acc @ (p # new))
      \<and> map (prediction_of env) (dict_entries (PDict d # items)) = map Inr (p # new)"
    by simp
  then show ?case by blast
qed auto

text \<open>
  A dictionary payload without the key \<open>error\<close>, none of whose confidences is an
  integer beyond the range of a double: one prediction per dictionary that carries a
  label/confidence pair, the payload itself first and then the dictionary entries of its
  \<open>predictions\<close> list; with none, the error of status 502 whose details hold the payload.
\<close>

lemma extract_predictions_collects:
  assumes no_error: "\<not> has_key d ''error''"
    and no_overflow: "\<forall>c \<in> set (candidates d).
           \<not> (\<exists>n. dict_get c ''confidence'' = PInt n \<and> float_overflows n)"
  shows "\<exists>found. map (prediction_of env) (candidates d) = map Inr found
           \<and> extract_predictions env (PDict d) =
               (if found = [] then
                  Inl (DeepstackClientError ''DeepStack returned no predictions for this image.''
                         502 [(''response'', PDict d)])
                else Inr (sorted_reverse confidence_percent found))"
proof -
  have falsy: "\<not> truthy (dict_get d ''error'')"
    using no_error by (simp add: has_key_def dict_get_def)
  have tot: "\<forall>c \<in> set (candidates d). \<exists>p. prediction_of env c = Inr p"
    using no_overflow prediction_of_total by blast
  obtain single where single:
    "(if has_key d ''label''
      then (case prediction_of env d of Inl e \<Rightarrow> Inl e | Inr p \<Rightarrow> Inr [p])
      else Inr []) = Inr single"
    "map (prediction_of env) (if has_key d ''label'' then [d] else []) = map Inr single"
  proof (cases "has_key d ''label''")
    case True
    then have "d \<in> set (candidates d)" by (simp add: candidates_def)
    with tot obtain p where "prediction_of env d = Inr p" by blast
    with True that [of "[p]"] show ?thesis by simp
  next
    case False
    with that [of "[]"] show ?thesis by simp
  qed
  obtain new where new:
    "(case dict_get d ''predictions'' of
        PList items \<Rightarrow> extract_items env single items
      | other \<Rightarrow> Inr single) = Inr (single @ new)"
    "map (prediction_of env)
       (case dict_get d ''predictions'' of PList items \<Rightarrow> dict_entries items | other \<Rightarrow> [])
     = map Inr new"
  proof (cases "dict_get d ''predictions''")
    case (PList items)
    then have "set (dict_entries items) \<subseteq> set (candidates d)"
      by (simp add: candidates_def)
    with tot have "\<forall>c \<in> set (dict_entries items). \<exists>p. prediction_of env c = Inr p"
      by blast
    from extract_items_total [OF this, of single] PList that show ?thesis by auto
  qed (use that [of "[]"] in auto)
  have "map (prediction_of env) (candidates d) = map Inr (single @ new)"
    using single(2) new(2) by (simp add: candidates_def)
  moreover have "extract_predictions env (PDict d) =
      (if single @ new = [] then
         Inl (DeepstackClientError ''DeepStack returned no predictions for this image.''
                502 [(''response'', PDict d)])
       else Inr (sorted_reverse confidence_percent (single @ new)))"
    using falsy single(1) new(1) by (simp add: extract_predictions_def)
  ultimately show ?thesis by blast
qed

text \<open>
  C4. The claim: for every dictionary payload without a top-level \<open>error\<close> field,
  extraction collects one prediction from the top-level label/confidence pair when the key
  \<open>label\<close> is present, and one per dictionary entry of the \<open>predictions\<close> list. The
  code at the payload \<open>{"label": "Apple", "confidence": 10^400}\<close>: the normalisation of
  the confidence raises \<open>OverflowError\<close>, which leaves \<open>_extract_predictions\<close>; nothing
  is collected, and the failure is not the error of status 502 either.
\<close>

theorem extract_predictions_huge_int:
  "extract_predictions env (PDict [(''label'', PStr ''Apple''), (''confidence'', PInt (10 ^ 400))]) =
     Inl (PyError OverflowError ''int too large to convert to float'')"
  by (simp add: extract_predictions_def dict_get_def has_key_def prediction_of_def
      normalize_confidence_def float_overflows_def)

section \<open>Payloads that are not dictionaries, and the error field\<close>

text \<open>
  C10. A payload that is not a dictionary (a list, a string, a number, a Boolean or
  \<open>None\<close>): \<open>_extract_predictions\<close>, and with it \<open>build_prediction_response\<close>, fails
  with a \<open>DeepstackClientError\<close> of status 502; no list is returned.
\<close>

theorem extract_predictions_non_dict:
  assumes "\<not> is_dict pl"
  shows "extract_predictions env pl =
           Inl (DeepstackClientError ''DeepStack response format is invalid.'' 502 [])
       \<and> build_prediction_response env pl ep mname =
           Inl (DeepstackClientError ''DeepStack response format is invalid.'' 502 [])"
  using assms by (cases pl) (simp_all add: extract_predictions_def build_prediction_response_def)

theorem extract_predictions_non_dict_witness:
  "\<not> is_dict (PList [PStr ''Apple''])
   \<and> extract_predictions demo_env (PList [PStr ''Apple'']) =
       Inl (DeepstackClientError ''DeepStack response format is invalid.'' 502 [])
   \<and> build_prediction_response demo_env (PList [PStr ''Apple''])
         ''http://localhost:5050/v1/vision/custom/FruitsRecognition'' ''FruitsRecognition'' =
       Inl (DeepstackClientError ''DeepStack response format is invalid.'' 502 [])"
  using extract_predictions_non_dict [of "PList [PStr ''Apple'']" demo_env
      "''http://localhost:5050/v1/vision/custom/FruitsRecognition''" "''FruitsRecognition''"]
  by simp

text \<open>
  C5, as claimed: every dictionary payload that contains a top-level \<open>error\<close> field fails
  with status 502. The code tests the truth value of \<open>payload.get("error")\<close>: with an
  empty string under \<open>error\<close> the field is present, nothing fails and the prediction of
  the payload is returned.
\<close>

theorem error_field_falsy_counterexample:
  "extract_predictions demo_env
     (PDict [(''error'', PStr ''''), (''label'', PStr ''Apple''), (''confidence'', PFloat (92 / 100))])
   = Inr [\<lparr>label = ''Apple'', confidence = 92 / 100, confidence_percent = 92\<rparr>]"
  by (simp add: extract_predictions_def dict_get_def dict_get_default_def has_key_def
      prediction_of_def normalize_confidence_def py_round_def round_half_even_def
      sorted_reverse_def demo_env_def)

lemma map_of_without_key: "k' \<noteq> k \<Longrightarrow> map_of (without_key k d) k' = map_of d k'"
  by (induction d) (auto simp: without_key_def)

lemma map_of_without_key_same: "map_of (without_key k d) k = None"
  by (induction d) (auto simp: without_key_def)

lemma py_float_error: "py_float env v = Inl e \<Longrightarrow> \<not> is_deepstack_client_error e"
  by (cases v) (auto split: option.splits if_splits)

lemma normalize_confidence_error:
  "normalize_confidence env v = Inl e \<Longrightarrow> \<not> is_deepstack_client_error e"
  unfolding normalize_confidence_def
  by (auto simp: Let_def py_float_error split: sum.splits if_splits)

lemma prediction_of_error: "prediction_of env d = Inl e \<Longrightarrow> \<not> is_deepstack_client_error e"
  unfolding prediction_of_def
  by (auto simp: normalize_confidence_error split: sum.splits prod.splits)

lemma extract_items_error:
  "extract_items env acc items = Inl e \<Longrightarrow> \<not> is_deepstack_client_error e"
proof (induction env acc items rule: extract_items.induct)
  case (2 env acc d items)
  then show ?case
    by (cases "prediction_of env d") (auto simp: prediction_of_error)
qed auto

lemma with_payload_details_other:
  "\<not> is_deepstack_client_error e \<Longrightarrow> with_payload_details pl (Inl e) = Inl e"
  by (cases e) simp_all

lemma prediction_of_without_error:
  "prediction_of env (without_key ''error'' d) = prediction_of env d"
proof -
  have a: "dict_get (without_key ''error'' d) ''confidence'' = dict_get d ''confidence''"
    by (simp add: dict_get_def map_of_without_key)
  have b: "dict_get_default (without_key ''error'' d) ''label'' v
      = dict_get_default d ''label'' v" for v
    by (simp add: dict_get_default_def map_of_without_key)
  show ?thesis unfolding prediction_of_def a b ..
qed

text \<open>
  C5, amended: every dictionary payload whose \<open>error\<close> field is true as a Python value
  (a non-empty string, list or dictionary, a non-zero number, \<open>True\<close>) fails with a
  \<open>DeepstackClientError\<close> of status 502 whose details hold the payload under
  \<open>response\<close>; this is decided before any prediction is extracted. Every other
  dictionary payload (the field absent, or \<open>None\<close>, \<open>False\<close>, zero, or an empty string,
  list or dictionary) never fails with that error: it is extracted as the payload without
  its \<open>error\<close> field is, the details of a failure naming the payload as it came.
\<close>

theorem error_field_truth_value:
  "(truthy (dict_get d ''error'') \<longrightarrow>
      extract_predictions env (PDict d) =
        Inl (DeepstackClientError
               (''DeepStack reported an error: '' @ str_of env (dict_get d ''error''))
               502 [(''response'', PDict d)]))
   \<and> (\<not> truthy (dict_get d ''error'') \<longrightarrow>
        extract_predictions env (PDict d) =
          with_payload_details (PDict d)
            (extract_predictions env (PDict (without_key ''error'' d)))
      \<and> (\<forall>shown. extract_predictions env (PDict d) \<noteq>
             Inl (DeepstackClientError (''DeepStack reported an error: '' @ shown)
                    502 [(''response'', PDict d)])))"
proof (intro conjI impI allI)
  assume "truthy (dict_get d ''error'')"
  then show "extract_predictions env (PDict d) =
        Inl (DeepstackClientError
               (''DeepStack reported an error: '' @ str_of env (dict_get d ''error''))
               502 [(''response'', PDict d)])"
    by (simp add: extract_predictions_def)
next
  assume falsy: "\<not> truthy (dict_get d ''error'')"
  let ?d = "without_key ''error'' d"
  let ?label = "if has_key d ''label''
                then (case prediction_of env d of Inl e \<Rightarrow> Inl e | Inr p \<Rightarrow> Inr [p])
                else Inr []"
  let ?items = "\<lambda>single. case dict_get d ''predictions'' of
                   PList items \<Rightarrow> extract_items env single items | other \<Rightarrow> Inr single"
  have same: "has_key ?d ''label'' = has_key d ''label''"
    "dict_get ?d ''predictions'' = dict_get d ''predictions''"
    "\<not> truthy (dict_get ?d ''error'')"
    by (simp_all add: has_key_def dict_get_def map_of_without_key map_of_without_key_same)
  have lhs: "extract_predictions env (PDict d) =
      (case ?label of
         Inl e \<Rightarrow> Inl e
       | Inr single \<Rightarrow>
           (case ?items single of
              Inl e \<Rightarrow> Inl e
            | Inr found \<Rightarrow>
                if found = [] then
                  Inl (DeepstackClientError ''DeepStack returned no predictions for this image.''
                         502 [(''response'', PDict d)])
                else Inr (sorted_reverse confidence_percent found)))"
    using falsy by (simp add: extract_predictions_def)
  have rhs: "extract_predictions env (PDict ?d) =
      (case ?label of
         Inl e \<Rightarrow> Inl e
       | Inr single \<Rightarrow>
           (case ?items single of
              Inl e \<Rightarrow> Inl e
            | Inr found \<Rightarrow>
                if found = [] then
                  Inl (DeepstackClientError ''DeepStack returned no predictions for this image.''
                         502 [(''response'', PDict ?d)])
                else Inr (sorted_reverse confidence_percent found)))"
    unfolding extract_predictions_def pyval.case same(1,2) prediction_of_without_error
    using same(3) by simp
  have label_err: "\<not> is_deepstack_client_error e" if "?label = Inl e" for e
    using that by (auto simp: prediction_of_error split: if_splits sum.splits)
  have items_err: "\<not> is_deepstack_client_error e" if "?items single = Inl e" for single e
    using that by (auto simp: extract_items_error split: pyval.splits)
  show eq: "extract_predictions env (PDict d) =
          with_payload_details (PDict d) (extract_predictions env (PDict ?d))"
  proof (cases ?label)
    case (Inl e)
    with label_err [OF Inl] show ?thesis
      unfolding lhs rhs by (simp add: with_payload_details_other)
  next
    case single: (Inr single)
    show ?thesis
    proof (cases "?items single")
      case (Inl e)
      with items_err [OF Inl] single show ?thesis
        unfolding lhs rhs by (simp add: with_payload_details_other)
    next
      case (Inr found)
      with single show ?thesis
        unfolding lhs rhs by simp
    qed
  qed
  fix shown
  show "extract_predictions env (PDict d) \<noteq>
             Inl (DeepstackClientError (''DeepStack reported an error: '' @ shown)
                    502 [(''response'', PDict d)])"
  proof (cases ?label)
    case (Inl e)
    with label_err [OF Inl] show ?thesis
      unfolding lhs by auto
  next
    case single: (Inr single)
    show ?thesis
    proof (cases "?items single")
      case (Inl e)
      with items_err [OF Inl] single show ?thesis
        unfolding lhs by auto
    next
      case (Inr found)
      with single show ?thesis
        unfolding lhs by simp
    qed
  qed
qed


lemma apple_extracted:
  "extract_predictions demo_env (PDict [(''label'', PStr ''Apple''), (''confidence'', PFloat (1 / 2))])
     = Inr [\<lparr>label = ''Apple'', confidence = 1 / 2, confidence_percent = 50\<rparr>]"
  by (simp add: extract_predictions_def dict_get_def dict_get_default_def has_key_def
      prediction_of_def normalize_confidence_def py_round_def round_half_even_def
      sorted_reverse_def demo_env_def)

theorem error_field_truth_value_witness:
  "truthy (dict_get [(''error'', PStr ''model busy''), (''label'', PStr ''Apple'')] ''error'')
   \<and> extract_predictions demo_env
         (PDict [(''error'', PStr ''model busy''), (''label'', PStr ''Apple'')]) =
       Inl (DeepstackClientError ''DeepStack reported an error: model busy'' 502
              [(''response'', PDict [(''error'', PStr ''model busy''), (''label'', PStr ''Apple'')])])
   \<and> \<not> truthy (dict_get [(''error'', PNone), (''label'', PStr ''Apple''),
                           (''confidence'', PFloat (1 / 2))] ''error'')
   \<and> extract_predictions demo_env
         (PDict [(''error'', PNone), (''label'', PStr ''Apple''), (''confidence'', PFloat (1 / 2))])
       = Inr [\<lparr>label = ''Apple'', confidence = 1 / 2, confidence_percent = 50\<rparr>]
   \<and> \<not> truthy (dict_get [(''error'', PInt 0)] ''error'')
   \<and> extract_predictions demo_env (PDict [(''error'', PInt 0)])
       = Inl (DeepstackClientError ''DeepStack returned no predictions for this image.'' 502
                [(''response'', PDict [(''error'', PInt 0)])])"
proof -
  have 1: "truthy (dict_get [(''error'', PStr ''model busy''), (''label'', PStr ''Apple'')] ''error'')"
    and 2: "\<not> truthy (dict_get [(''error'', PNone), (''label'', PStr ''Apple''),
                           (''confidence'', PFloat (1 / 2))] ''error'')"
    and 3: "\<not> truthy (dict_get [(''error'', PInt 0)] ''error'')"
    by (simp_all add: dict_get_def)
  have d2: "without_key ''error'' [(''error'', PNone), (''label'', PStr ''Apple''),
              (''confidence'', PFloat (1 / 2))]
            = [(''label'', PStr ''Apple''), (''confidence'', PFloat (1 / 2))]"
    and d3: "without_key ''error'' [(''error'', PInt 0)] = []"
    by (simp_all add: without_key_def)
  have empty: "extract_predictions demo_env (PDict []) =
      Inl (DeepstackClientError ''DeepStack returned no predictions for this image.'' 502
             [(''response'', PDict [])])"
    by (simp add: extract_predictions_def dict_get_def has_key_def)
  from error_field_truth_value [of "[(''error'', PStr ''model busy''), (''label'', PStr ''Apple'')]" demo_env] 1
  have a: "extract_predictions demo_env
         (PDict [(''error'', PStr ''model busy''), (''label'', PStr ''Apple'')]) =
       Inl (DeepstackClientError ''DeepStack reported an error: model busy'' 502
              [(''response'', PDict [(''error'', PStr ''model busy''), (''label'', PStr ''Apple'')])])"
    by (simp add: dict_get_def demo_env_def)
  from error_field_truth_value [of "[(''error'', PNone), (''label'', PStr ''Apple''),
      (''confidence'', PFloat (1 / 2))]" demo_env] 2
  have b: "extract_predictions demo_env
         (PDict [(''error'', PNone), (''label'', PStr ''Apple''), (''confidence'', PFloat (1 / 2))])
       = Inr [\<lparr>label = ''Apple'', confidence = 1 / 2, confidence_percent = 50\<rparr>]"
    by (simp add: d2 apple_extracted)
  from error_field_truth_value [of "[(''error'', PInt 0)]" demo_env] 3
  have c: "extract_predictions demo_env (PDict [(''error'', PInt 0)])
       = Inl (DeepstackClientError ''DeepStack returned no predictions for this image.'' 502
                [(''response'', PDict [(''error'', PInt 0)])])"
    by (simp add: d3 empty)
  from 1 2 3 a b c show ?thesis by simp
qed

section \<open>The local engine\<close>

text \<open>
  Whenever \<open>predict_with_local_onnx\<close> returns, the tensor given to the session is the
  image array normalised with the std and the mean read from the configuration, and that
  std is not zero.
\<close>

lemma read_settings_std_nonzero: "read_settings env config = Inr cfg \<Longrightarrow> std cfg \<noteq> 0"
  unfolding read_settings_def by (auto split: sum.splits if_splits)

lemma local_engine_normalizes:
  assumes "predict_with_local_onnx env f model_path config_path = Inr qs"
  shows "\<exists>config sess cfg image_array input_name logits.
           load_config env config_path = Inr config \<and> load_session env model_path = Inr sess
         \<and> read_settings env config = Inr cfg \<and> std cfg \<noteq> 0
         \<and> open_image env (stream f) (width cfg) (height cfg) = Inr image_array
         \<and> session_run sess input_name
              (to_input_tensor (normalize_image (std cfg) (mean cfg) image_array)) = Inr logits"
proof -
  from assms obtain config sess cfg image_array input_name logits where
    *: "load_config env config_path = Inr config" "load_session env model_path = Inr sess"
       "read_settings env config = Inr cfg"
       "open_image env (stream f) (width cfg) (height cfg) = Inr image_array"
       "session_run sess input_name
          (to_input_tensor (normalize_image (std cfg) (mean cfg) image_array)) = Inr logits"
    unfolding predict_with_local_onnx_def
    by (auto simp: Let_def split: sum.splits list.splits)
  with read_settings_std_nonzero [OF *(3)] show ?thesis by blast
qed

text \<open>
  C3, as claimed: with a std of at least 10 and a mean strictly between 0 and 1 every
  pixel becomes \<open>(pixel/std - mean) / mean\<close>. The code divides by \<open>max(mean, 1e-6)\<close>:
  at std 255 and mean \<open>1e-7\<close> the two differ.
\<close>

theorem normalize_small_mean_counterexample:
  "normalize_image 255 (1 / 10000000) [[[255, 0, 51]]]
     \<noteq> map (map (map (spec_normalize_pixel 255 (1 / 10000000)))) [[[255, 0, 51]]]"
  by (simp add: normalize_image_def normalize_pixel_def spec_normalize_pixel_def)

text \<open>
  C3, amended: with a std of at least 10 and a mean strictly between 0 and 1 every pixel
  becomes \<open>(pixel/std - mean) / max(mean, 1e-6)\<close>, in every other case
  \<open>(pixel - mean) / std\<close>; this is the rule of the claim whenever the mean is at least
  \<open>1e-6\<close> (or the second branch is taken).
\<close>

theorem normalize_image_rule:
  "normalize_image s m image_array =
     map (map (map (\<lambda>x. if 10 \<le> s \<and> 0 < m \<and> m < 1
                          then (x / s - m) / max m (1 / 1000000)
                          else (x - m) / s))) image_array
   \<and> (1 / 1000000 \<le> m \<or> m \<le> 0 \<or> s < 10 \<longrightarrow>
        normalize_image s m image_array = map (map (map (spec_normalize_pixel s m))) image_array)"
  by (auto simp: normalize_image_def normalize_pixel_def spec_normalize_pixel_def max_def fun_eq_iff)

theorem normalize_image_rule_witness:
  "((1::real) / 1000000 \<le> 1 / 2 \<or> (1::real) / 2 \<le> 0 \<or> (255::real) < 10)
   \<and> normalize_image 255 (1 / 2) [[[255, 0, 51]]] = [[[1, - 1, - 3 / 5]]]
   \<and> map (map (map (spec_normalize_pixel 255 (1 / 2)))) [[[255, 0, 51]]] = [[[1, - 1, - 3 / 5]]]"
  using normalize_image_rule [of 255 "1 / 2" "[[[255, 0, 51]]]"]
  by (simp add: spec_normalize_pixel_def)

subsection \<open>Softmax\<close>

lemma exp_le_sum_list:
  fixes c :: real
  shows "m \<in> set xs \<Longrightarrow> exp (m - c) \<le> (\<Sum>x\<leftarrow>xs. exp (x - c))"
proof (induction xs)
  case Nil
  then show ?case by simp
next
  case (Cons a xs)
  have nonneg: "0 \<le> (\<Sum>x\<leftarrow>ys. exp (x - c))" for ys
    by (rule sum_list_nonneg) auto
  show ?case
  proof (cases "m = a")
    case True
    then show ?thesis using nonneg [of xs] by simp
  next
    case False
    with Cons have "exp (m - c) \<le> (\<Sum>x\<leftarrow>xs. exp (x - c))" by simp
    moreover have "0 \<le> exp (a - c)" by simp
    ultimately show ?thesis by (simp add: add_increasing)
  qed
qed

lemma denominator_ge_one:
  fixes logits :: "real list"
  assumes "logits \<noteq> []"
  shows "1 \<le> (\<Sum>x\<leftarrow>logits. exp (x - Max (set logits)))"
proof -
  have "Max (set logits) \<in> set logits" using assms by simp
  then have "exp (Max (set logits) - Max (set logits))
      \<le> (\<Sum>x\<leftarrow>logits. exp (x - Max (set logits)))"
    by (rule exp_le_sum_list)
  then show ?thesis by simp
qed

text \<open>
  For a logits vector with at least one element \<open>_softmax\<close> returns: the maximum is
  subtracted before exponentiating, the sum of the exponentials is at least 1 (so the
  division is not by zero, and the branch for a sum \<open>\<le> 0\<close> is not taken), and the
  result has the length of the input, with entries between 0 and 1.
\<close>

lemma softmax_on_nonempty:
  assumes "logits \<noteq> []"
  shows "softmax logits =
           Inr (map (\<lambda>x. exp (x - Max (set logits)) / (\<Sum>y\<leftarrow>logits. exp (y - Max (set logits))))
                  logits)
       \<and> 1 \<le> (\<Sum>y\<leftarrow>logits. exp (y - Max (set logits)))
       \<and> (\<exists>probs. softmax logits = Inr probs \<and> length probs = length logits
             \<and> (\<forall>p \<in> set probs. 0 \<le> p \<and> p \<le> 1))"
proof -
  let ?d = "\<Sum>y\<leftarrow>logits. exp (y - Max (set logits))"
  let ?probs = "map (\<lambda>x. exp (x - Max (set logits)) / ?d) logits"
  have d: "1 \<le> ?d" by (rule denominator_ge_one [OF assms])
  then have eq: "softmax logits = Inr ?probs"
    using assms by (simp add: softmax_def Let_def comp_def)
  have each: "\<forall>p \<in> set ?probs. 0 \<le> p \<and> p \<le> 1"
  proof
    fix p assume "p \<in> set ?probs"
    then obtain x where x: "x \<in> set logits" "p = exp (x - Max (set logits)) / ?d" by auto
    have "exp (x - Max (set logits)) \<le> ?d" using x(1) by (rule exp_le_sum_list)
    with d x(2) show "0 \<le> p \<and> p \<le> 1" by (simp add: divide_le_eq_1)
  qed
  from eq d each show ?thesis by simp
qed

lemma softmax_equal_logits: "softmax [1, 1, 1] = Inr [1 / 3, 1 / 3, 1 / 3]"
  by (simp add: softmax_def)

text \<open>
  C7. The claim: for every logits vector \<open>_softmax\<close> is total, returning zeros instead of
  dividing when the sum of the exponentials is \<open>\<le> 0\<close>. The code at the vector with no
  element, the one vector whose sum of exponentials is 0: \<open>np.max\<close> raises
  \<open>ValueError\<close> before the sum is formed, so the guard on the sum is never reached and
  nothing is returned.
\<close>

theorem softmax_empty_raises:
  "softmax [] =
     Inl (PyError ValueError ''zero-size array to reduction operation maximum which has no identity'')"
  by (simp add: softmax_def)

section \<open>Upload validation\<close>

lemma allowed_text:
  "join '', '' (sorted_list_of_set ALLOWED_EXTENSIONS) = ''bmp, gif, jpeg, jpg, png, webp''"
  by code_simp

lemma rsplit_dot_last_append:
  assumes "CHR ''.'' \<notin> set ext"
  shows "rsplit_dot_last (base @ ''.'' @ ext) = ext"
proof -
  have "takeWhile (\<lambda>c. c \<noteq> CHR ''.'') (rev ext @ CHR ''.'' # rev base) = rev ext"
    using assms by (simp add: takeWhile_append)
  then show ?thesis by (simp add: rsplit_dot_last_def)
qed

lemma demo_sanitised:
  "ascii_secure_filename ''malware.exe'' = ''malware.exe''"
  "ascii_secure_filename ''cat.JPG'' = ''cat.JPG''"
  "ascii_secure_filename ''notes'' = ''notes''"
  "ascii_secure_filename ''../'' = []"
  "ascii_secure_filename ''apple.png'' = ''apple.png''"
  by code_simp+

lemma demo_lowered:
  "lower ''exe'' = ''exe''" "lower ''JPG'' = ''jpg''" "lower ''png'' = ''png''"
  by code_simp+

text \<open>
  C8. \<open>validate_image_upload\<close> returns the first failure in this order: no file; a
  sanitised name that is empty; a name without a dot; an extension (what follows the last
  dot, in lower case) outside the allow-list, the message listing
  \<open>bmp, gif, jpeg, jpg, png, webp\<close>; a declared media type that is non-empty and does not
  start with \<open>image/\<close>; otherwise the file is accepted. So \<open>malware.exe\<close> is rejected
  with the allow-list message and \<open>cat.JPG\<close> passes the extension check, for every
  sanitiser that leaves these two names as they are.
\<close>

theorem validate_image_upload_rules:
  "validate_image_upload env None = (None, Some ''No file was uploaded.'')
   \<and> (secure_filename env (or_empty (filename f)) = [] \<longrightarrow>
        validate_image_upload env (Some f) = (None, Some ''Please choose an image file first.''))
   \<and> (secure_filename env (or_empty (filename f)) \<noteq> []
        \<and> CHR ''.'' \<notin> set (secure_filename env (or_empty (filename f))) \<longrightarrow>
        validate_image_upload env (Some f) = (None, Some ''Uploaded file has no extension.''))
   \<and> (\<forall>base ext.
        secure_filename env (or_empty (filename f)) = base @ ''.'' @ ext \<and> CHR ''.'' \<notin> set ext \<longrightarrow>
          (lower ext \<notin> {''jpg'', ''jpeg'', ''png'', ''bmp'', ''gif'', ''webp''} \<longrightarrow>
             validate_image_upload env (Some f) =
               (None, Some (''Unsupported file type '' @ [CHR 0x27] @ lower ext @ [CHR 0x27]
                            @ ''. Allowed: bmp, gif, jpeg, jpg, png, webp.'')))
        \<and> (lower ext \<in> {''jpg'', ''jpeg'', ''png'', ''bmp'', ''gif'', ''webp''}
             \<and> or_empty (mimetype f) \<noteq> [] \<and> \<not> startswith (or_empty (mimetype f)) ''image/'' \<longrightarrow>
             validate_image_upload env (Some f) =
               (None, Some (''Invalid file MIME type '' @ [CHR 0x27] @ or_empty (mimetype f)
                            @ [CHR 0x27] @ ''. Only images are supported.'')))
        \<and> (lower ext \<in> {''jpg'', ''jpeg'', ''png'', ''bmp'', ''gif'', ''webp''}
             \<and> (or_empty (mimetype f) = [] \<or> startswith (or_empty (mimetype f)) ''image/'') \<longrightarrow>
             validate_image_upload env (Some f) = (Some f, None)))
   \<and> (filename f = Some ''malware.exe'' \<and> secure_filename env ''malware.exe'' = ''malware.exe'' \<longrightarrow>
        validate_image_upload env (Some f) =
          (None, Some (''Unsupported file type '' @ [CHR 0x27] @ ''exe'' @ [CHR 0x27]
                       @ ''. Allowed: bmp, gif, jpeg, jpg, png, webp.'')))
   \<and> (filename f = Some ''cat.JPG'' \<and> secure_filename env ''cat.JPG'' = ''cat.JPG'' \<longrightarrow>
        validate_image_upload env (Some f) =
          (if or_empty (mimetype f) \<noteq> [] \<and> \<not> startswith (or_empty (mimetype f)) ''image/''
           then (None, Some (''Invalid file MIME type '' @ [CHR 0x27] @ or_empty (mimetype f)
                             @ [CHR 0x27] @ ''. Only images are supported.''))
           else (Some f, None)))"
proof -
  have ext: "validate_image_upload env (Some f) =
      (if lower ext \<notin> ALLOWED_EXTENSIONS
       then (None, Some (''Unsupported file type '' @ [CHR 0x27] @ lower ext @ [CHR 0x27]
                         @ ''. Allowed: bmp, gif, jpeg, jpg, png, webp.''))
       else if or_empty (mimetype f) \<noteq> [] \<and> \<not> startswith (or_empty (mimetype f)) ''image/''
       then (None, Some (''Invalid file MIME type '' @ [CHR 0x27] @ or_empty (mimetype f)
                         @ [CHR 0x27] @ ''. Only images are supported.''))
       else (Some f, None))"
    if "secure_filename env (or_empty (filename f)) = base @ ''.'' @ ext" "CHR ''.'' \<notin> set ext"
    for base ext
    using that rsplit_dot_last_append [OF that(2), of base] allowed_text
    by (simp add: validate_image_upload_def Let_def ALLOWED_MIME_PREFIX_def)
  show ?thesis
    apply (intro conjI allI impI)
    subgoal by (simp add: validate_image_upload_def)
    subgoal by (simp add: validate_image_upload_def)
    subgoal by (simp add: validate_image_upload_def)
    subgoal for base ext using ext [of base ext] by (simp add: ALLOWED_EXTENSIONS_def)
    subgoal for base ext using ext [of base ext] by (simp add: ALLOWED_EXTENSIONS_def)
    subgoal for base ext using ext [of base ext] by (auto simp add: ALLOWED_EXTENSIONS_def)
    subgoal using ext [of "''malware''" "''exe''"]
      by (simp add: or_empty_def demo_lowered ALLOWED_EXTENSIONS_def)
    subgoal using ext [of "''cat''" "''JPG''"]
      by (simp add: or_empty_def demo_lowered ALLOWED_EXTENSIONS_def)
    done
qed

theorem validate_image_upload_rules_witness:
  "validate_image_upload demo_env
     (Some \<lparr>filename = Some ''malware.exe'', mimetype = Some ''application/octet-stream'', stream = []\<rparr>)
     = (None, Some (''Unsupported file type '' @ [CHR 0x27] @ ''exe'' @ [CHR 0x27]
                    @ ''. Allowed: bmp, gif, jpeg, jpg, png, webp.''))
   \<and> validate_image_upload demo_env
       (Some \<lparr>filename = Some ''cat.JPG'', mimetype = Some ''image/jpeg'', stream = []\<rparr>)
     = (Some \<lparr>filename = Some ''cat.JPG'', mimetype = Some ''image/jpeg'', stream = []\<rparr>, None)
   \<and> validate_image_upload demo_env
       (Some \<lparr>filename = Some ''cat.JPG'', mimetype = Some ''text/html'', stream = []\<rparr>)
     = (None, Some (''Invalid file MIME type '' @ [CHR 0x27] @ ''text/html'' @ [CHR 0x27]
                    @ ''. Only images are supported.''))
   \<and> validate_image_upload demo_env
       (Some \<lparr>filename = Some ''notes'', mimetype = None, stream = []\<rparr>)
     = (None, Some ''Uploaded file has no extension.'')
   \<and> validate_image_upload demo_env
       (Some \<lparr>filename = Some ''../'', mimetype = None, stream = []\<rparr>)
     = (None, Some ''Please choose an image file first.'')"
proof -
  let ?exe = "\<lparr>filename = Some ''malware.exe'', mimetype = Some ''application/octet-stream'', stream = []\<rparr>"
  let ?jpg = "\<lparr>filename = Some ''cat.JPG'', mimetype = Some ''image/jpeg'', stream = []\<rparr>"
  let ?html = "\<lparr>filename = Some ''cat.JPG'', mimetype = Some ''text/html'', stream = []\<rparr>"
  let ?notes = "\<lparr>filename = Some ''notes'', mimetype = None, stream = ''''\<rparr>"
  let ?dots = "\<lparr>filename = Some ''../'', mimetype = None, stream = ''''\<rparr>"
  have sf: "secure_filename demo_env = ascii_secure_filename" by (simp add: demo_env_def)
  have 1: "validate_image_upload demo_env (Some ?exe)
     = (None, Some (''Unsupported file type '' @ [CHR 0x27] @ ''exe'' @ [CHR 0x27]
                    @ ''. Allowed: bmp, gif, jpeg, jpg, png, webp.''))"
    using validate_image_upload_rules [of demo_env ?exe, THEN conjunct2, THEN conjunct2,
        THEN conjunct2, THEN conjunct1, THEN spec, THEN spec, of "''malware''" "''exe''"]
    by (simp add: sf or_empty_def demo_sanitised demo_lowered)
  have 2: "validate_image_upload demo_env (Some ?jpg) = (Some ?jpg, None)"
    using validate_image_upload_rules [of demo_env ?jpg, THEN conjunct2, THEN conjunct2,
        THEN conjunct2, THEN conjunct1, THEN spec, THEN spec, of "''cat''" "''JPG''"]
    by (simp add: sf or_empty_def demo_sanitised demo_lowered startswith_def)
  have 3: "validate_image_upload demo_env (Some ?html)
     = (None, Some (''Invalid file MIME type '' @ [CHR 0x27] @ ''text/html'' @ [CHR 0x27]
                    @ ''. Only images are supported.''))"
    using validate_image_upload_rules [of demo_env ?html, THEN conjunct2, THEN conjunct2,
        THEN conjunct2, THEN conjunct1, THEN spec, THEN spec, of "''cat''" "''JPG''"]
    by (simp add: sf or_empty_def demo_sanitised demo_lowered startswith_def)
  have 4: "validate_image_upload demo_env (Some ?notes) = (None, Some ''Uploaded file has no extension.'')"
    using validate_image_upload_rules [of demo_env ?notes]
    by (simp add: sf or_empty_def demo_sanitised)
  have 5: "validate_image_upload demo_env (Some ?dots) = (None, Some ''Please choose an image file first.'')"
    using validate_image_upload_rules [of demo_env ?dots]
    by (simp add: sf or_empty_def demo_sanitised)
  from 1 2 3 4 5 show ?thesis by simp
qed

section \<open>The request handler\<close>

lemma local_nonempty:
  assumes "predict_with_local_onnx env f model_path config_path = Inr qs"
  shows "qs \<noteq> []"
proof -
  from local_found [OF assms] obtain lm logits probs unsorted where
    u: "softmax logits = Inr probs" "label_predictions env lm (enumerate 0 probs) = Inr unsorted"
       "qs = sorted_reverse local_confidence unsorted"
    by blast
  from softmax_length [OF u(1)] have "probs \<noteq> []" by auto
  moreover have "map local_confidence unsorted = probs"
    using label_predictions_confidences [OF u(2)] by (simp add: enumerate_eq_zip)
  ultimately have "unsorted \<noteq> []" by auto
  with u(3) show ?thesis by (simp add: sorted_reverse_Nil_iff)
qed

lemma dict_entries_local: "dict_entries (map local_prediction_dict qs) =
    map (\<lambda>q. [(''label'', PStr (local_label q)), (''confidence'', PFloat (local_confidence q))]) qs"
  by (induction qs) (simp_all add: local_prediction_dict_def)

lemma extract_local_payload:
  assumes "qs \<noteq> []"
  shows "\<exists>found. found \<noteq> [] \<and>
     extract_predictions env (PDict [(''predictions'', PList (map local_prediction_dict qs))]) = Inr found"
proof -
  let ?d = "[(''predictions'', PList (map local_prediction_dict qs))]"
  have cands: "candidates ?d = map (\<lambda>q. [(''label'', PStr (local_label q)),
      (''confidence'', PFloat (local_confidence q))]) qs"
    by (simp add: candidates_def has_key_def dict_get_def dict_entries_local)
  have "\<not> has_key ?d ''error''" by (simp add: has_key_def)
  moreover have "\<forall>c \<in> set (candidates ?d).
      \<not> (\<exists>n. dict_get c ''confidence'' = PInt n \<and> float_overflows n)"
    unfolding cands by (auto simp: dict_get_def)
  ultimately obtain found where
    f: "map (prediction_of env) (candidates ?d) = map Inr found"
       "extract_predictions env (PDict ?d) =
          (if found = [] then
             Inl (DeepstackClientError ''DeepStack returned no predictions for this image.''
                    502 [(''response'', PDict ?d)])
           else Inr (sorted_reverse confidence_percent found))"
    using extract_predictions_collects [of ?d env] by blast
  from map_eq_imp_length_eq [OF f(1)] have "length found = length qs"
    by (simp add: cands)
  with assms have ne: "found \<noteq> []" by auto
  with f(2) have "extract_predictions env (PDict ?d) = Inr (sorted_reverse confidence_percent found)"
    by simp
  moreover have "sorted_reverse confidence_percent found \<noteq> []"
    using ne by (simp add: sorted_reverse_Nil_iff)
  ultimately show ?thesis by blast
qed

lemma local_attempt_success:
  assumes "predict_with_local_onnx env f ''Fruits.onnx'' ''config.json'' = Inr qs"
  shows "\<exists>d. local_attempt env cfg f =
     Inr (\<lparr>success = True, fallback = Some True,
           warning = Some ''DeepStack custom endpoint was not found. Used local ONNX fallback model.'',
           error = None, details = None, data = Some d\<rparr>, 200)"
proof -
  from extract_local_payload [OF local_nonempty [OF assms], of env] obtain found where
    "found \<noteq> []"
    "extract_predictions env (PDict [(''predictions'', PList (map local_prediction_dict qs))]) = Inr found"
    by blast
  then obtain d where "build_prediction_response env
      (PDict [(''predictions'', PList (map local_prediction_dict qs))])
      ''local://onnx/Fruits.onnx'' (DEEPSTACK_MODEL_NAME cfg) = Inr d"
    by (cases found) (simp_all add: build_prediction_response_def Let_def)
  with assms show ?thesis by (simp add: local_attempt_def)
qed

lemma local_attempt_local_error:
  assumes "predict_with_local_onnx env f ''Fruits.onnx'' ''config.json'' = Inl (LocalModelError m)"
  shows "local_attempt env cfg f = Inl (LocalModelError m)"
  using assms by (simp add: local_attempt_def)

text \<open>Independence of the local engine.\<close>

lemma agree_fields:
  assumes "agree_off_local env env'"
  shows "float_of_str env' = float_of_str env" "int_of_str env' = int_of_str env"
    "str_of env' = str_of env" "secure_filename env' = secure_filename env"
    "utcnow_isoformat env' = utcnow_isoformat env" "getenv_base_url env' = getenv_base_url env"
    "requests_post env' = requests_post env"
  using assms by (simp_all add: agree_off_local_def)

lemma py_float_agree:
  assumes a: "agree_off_local env env'"
  shows "py_float env' v = py_float env v"
  by (cases v) (simp_all add: agree_fields [OF a])

lemma normalize_confidence_agree:
  assumes a: "agree_off_local env env'"
  shows "normalize_confidence env' v = normalize_confidence env v"
  unfolding normalize_confidence_def py_float_agree [OF a] ..

lemma prediction_of_agree:
  assumes a: "agree_off_local env env'"
  shows "prediction_of env' d = prediction_of env d"
  unfolding prediction_of_def normalize_confidence_agree [OF a] agree_fields [OF a] ..

lemma extract_items_agree:
  assumes a: "agree_off_local env env'"
  shows "extract_items env' acc items = extract_items env acc items"
proof (induction items arbitrary: acc)
  case Nil
  then show ?case by simp
next
  case (Cons item items)
  show ?case
  proof (cases item)
    case (PDict d)
    with Cons show ?thesis
      by (cases "prediction_of env d") (simp_all add: prediction_of_agree [OF a])
  qed (simp_all add: Cons)
qed

lemma extract_predictions_agree:
  assumes a: "agree_off_local env env'"
  shows "extract_predictions env' pl = extract_predictions env pl"
  unfolding extract_predictions_def prediction_of_agree [OF a] extract_items_agree [OF a]
    agree_fields [OF a] ..

lemma build_prediction_response_agree:
  assumes a: "agree_off_local env env'"
  shows "build_prediction_response env' pl ep mname = build_prediction_response env pl ep mname"
  unfolding build_prediction_response_def extract_predictions_agree [OF a] agree_fields [OF a] ..

lemma call_custom_model_agree:
  assumes a: "agree_off_local env env'"
  shows "call_custom_model env' f base mname seconds = call_custom_model env f base mname seconds"
  unfolding call_custom_model_def agree_fields [OF a] ..

lemma remote_attempt_agree:
  assumes a: "agree_off_local env env'"
  shows "remote_attempt env' cfg f = remote_attempt env cfg f"
  unfolding remote_attempt_def call_custom_model_agree [OF a]
    build_prediction_response_agree [OF a] ..

lemma validate_image_upload_agree:
  assumes a: "agree_off_local env env'"
  shows "validate_image_upload env' uf = validate_image_upload env uf"
  unfolding validate_image_upload_def agree_fields [OF a] ..

lemma surface_error_agree:
  assumes a: "agree_off_local env env'"
  shows "surface_error env' msg st det = surface_error env msg st det"
  unfolding surface_error_def agree_fields [OF a] ..

text \<open>
  C2. A valid upload for which the remote attempt fails with a \<open>DeepstackClientError\<close>.
  With status 404 and the fallback enabled the local engine runs: when it returns, the
  reply has status 200, \<open>fallback = true\<close> and the warning text; when it raises
  \<open>LocalModelError\<close>, that failure is logged and the reply carries the message, the
  status 404 and the details of the remote error. With the fallback disabled, or a status
  other than 404, the reply carries the message, status and details of the remote error,
  and the whole result is the same for every environment that differs in the local engine
  only: the local engine is not consulted.
\<close>

theorem predict_fallback_policy:
  assumes valid: "validate_image_upload env request_file = (Some f, None)"
    and remote: "remote_attempt env cfg f = (lg, Inl (DeepstackClientError msg st det))"
  shows "(st = 404 \<and> ENABLE_LOCAL_ONNX_FALLBACK cfg \<longrightarrow>
           (\<forall>qs. predict_with_local_onnx env f ''Fruits.onnx'' ''config.json'' = Inr qs \<longrightarrow>
              (\<exists>d. snd (predict env cfg request_file) =
                 Inr (\<lparr>success = True, fallback = Some True,
                       warning = Some ''DeepStack custom endpoint was not found. Used local ONNX fallback model.'',
                       error = None, details = None, data = Some d\<rparr>, 200)))
         \<and> (\<forall>local_msg.
              predict_with_local_onnx env f ''Fruits.onnx'' ''config.json''
                = Inl (LocalModelError local_msg) \<longrightarrow>
              snd (predict env cfg request_file) =
                Inr (\<lparr>success = False, fallback = None, warning = None, error = Some msg,
                      details = Some (PDict det), data = None\<rparr>, 404)
              \<and> (ERROR, ''Local ONNX fallback failed: '' @ local_msg)
                  \<in> set (fst (predict env cfg request_file))))
       \<and> (\<not> (st = 404 \<and> ENABLE_LOCAL_ONNX_FALLBACK cfg) \<longrightarrow>
           snd (predict env cfg request_file) =
             Inr (\<lparr>success = False, fallback = None, warning = None, error = Some msg,
                   details = Some (PDict det), data = None\<rparr>, st)
           \<and> (\<forall>env'. agree_off_local env env' \<longrightarrow>
                 predict env' cfg request_file = predict env cfg request_file))"
proof (intro conjI impI allI)
  fix qs
  assume c: "st = 404 \<and> ENABLE_LOCAL_ONNX_FALLBACK cfg"
    and ok: "predict_with_local_onnx env f ''Fruits.onnx'' ''config.json'' = Inr qs"
  from local_attempt_success [OF ok, of cfg] obtain d where
    "local_attempt env cfg f =
     Inr (\<lparr>success = True, fallback = Some True,
           warning = Some ''DeepStack custom endpoint was not found. Used local ONNX fallback model.'',
           error = None, details = None, data = Some d\<rparr>, 200)"
    by blast
  with valid remote c have "snd (predict env cfg request_file) =
     Inr (\<lparr>success = True, fallback = Some True,
           warning = Some ''DeepStack custom endpoint was not found. Used local ONNX fallback model.'',
           error = None, details = None, data = Some d\<rparr>, 200)"
    by (simp add: predict_def or_empty_def)
  then show "\<exists>d. snd (predict env cfg request_file) =
     Inr (\<lparr>success = True, fallback = Some True,
           warning = Some ''DeepStack custom endpoint was not found. Used local ONNX fallback model.'',
           error = None, details = None, data = Some d\<rparr>, 200)"
    by blast
next
  fix local_msg
  assume c: "st = 404 \<and> ENABLE_LOCAL_ONNX_FALLBACK cfg"
    and bad: "predict_with_local_onnx env f ''Fruits.onnx'' ''config.json''
                = Inl (LocalModelError local_msg)"
  from local_attempt_local_error [OF bad, of cfg] valid remote c
  show "snd (predict env cfg request_file) =
          Inr (\<lparr>success = False, fallback = None, warning = None, error = Some msg,
                details = Some (PDict det), data = None\<rparr>, 404)"
    by (simp add: predict_def or_empty_def surface_error_def)
  from local_attempt_local_error [OF bad, of cfg] valid remote c
  show "(ERROR, ''Local ONNX fallback failed: '' @ local_msg)
          \<in> set (fst (predict env cfg request_file))"
    by (simp add: predict_def or_empty_def surface_error_def)
next
  assume "\<not> (st = 404 \<and> ENABLE_LOCAL_ONNX_FALLBACK cfg)"
  then have c: "(st = 404 \<and> ENABLE_LOCAL_ONNX_FALLBACK cfg) = False" by simp
  show "snd (predict env cfg request_file) =
          Inr (\<lparr>success = False, fallback = None, warning = None, error = Some msg,
                details = Some (PDict det), data = None\<rparr>, st)"
    by (simp add: predict_def or_empty_def surface_error_def valid remote c)
next
  fix env'
  assume "\<not> (st = 404 \<and> ENABLE_LOCAL_ONNX_FALLBACK cfg)"
    and agree: "agree_off_local env env'"
  then have c: "(st = 404 \<and> ENABLE_LOCAL_ONNX_FALLBACK cfg) = False" by simp
  have "predict env' cfg request_file =
      (case surface_error env msg st det of (lg2, r) \<Rightarrow> (lg @ lg2, Inr r))"
    by (simp add: predict_def or_empty_def validate_image_upload_agree [OF agree]
        remote_attempt_agree [OF agree] surface_error_agree [OF agree] valid remote c)
  moreover have "predict env cfg request_file =
      (case surface_error env msg st det of (lg2, r) \<Rightarrow> (lg @ lg2, Inr r))"
    by (simp add: predict_def or_empty_def valid remote c)
  ultimately show "predict env' cfg request_file = predict env cfg request_file" by simp
qed

subsection \<open>The handler on the instance\<close>

lemma demo_valid: "validate_image_upload demo_env (Some demo_file) = (Some demo_file, None)"
  by code_simp

lemma demo_remote:
  "remote_attempt demo_env demo_app demo_file =
     ([], Inl (DeepstackClientError ''DeepStack custom endpoint was not found.'' 404 demo_details))"
  by code_simp

lemma demo_agree:
  "agree_off_local demo_env demo_env_no_config" "agree_off_local demo_env demo_env_bad_config"
  by (simp_all add: agree_off_local_def demo_env_no_config_def demo_env_bad_config_def)

lemma demo_local_attempt:
  "local_attempt demo_env demo_app demo_file =
     Inr (\<lparr>success = True, fallback = Some True,
           warning = Some ''DeepStack custom endpoint was not found. Used local ONNX fallback model.'',
           error = None, details = None,
           data = Some demo_data\<rparr>, 200)"
proof -
  have "build_prediction_response demo_env
          (PDict [(''predictions'',
                   PList [PDict [(''label'', PStr ''Apple''), (''confidence'', PFloat (1 / 3))],
                          PDict [(''label'', PStr ''Banana''), (''confidence'', PFloat (1 / 3))],
                          PDict [(''label'', PStr ''class_2''), (''confidence'', PFloat (1 / 3))]])])
          ''local://onnx/Fruits.onnx'' ''FruitsRecognition'' = Inr demo_data"
    by (simp add: build_prediction_response_def extract_predictions_def dict_get_def
        dict_get_default_def has_key_def prediction_of_def normalize_confidence_def py_round_def
        round_half_even_def sorted_reverse_def confidence_profile_def demo_env_def demo_data_def)
  then show ?thesis
    by (simp add: local_attempt_def demo_local_run local_prediction_dict_def demo_app_def)
qed

lemma demo_local_no_config:
  "predict_with_local_onnx demo_env_no_config demo_file ''Fruits.onnx'' ''config.json'' =
     Inl (LocalModelError ''Local model config file not found: config.json'')"
  by (simp add: predict_with_local_onnx_def load_config_def demo_env_no_config_def)

lemma demo_local_bad_config:
  "local_attempt demo_env_bad_config demo_app demo_file =
     Inl (PyError ValueError ''Expecting value: line 1 column 1 (char 0)'')"
  by (simp add: local_attempt_def predict_with_local_onnx_def load_config_def
      demo_env_bad_config_def)

theorem predict_fallback_policy_witness:
  "snd (predict demo_env demo_app (Some demo_file)) =
     Inr (\<lparr>success = True, fallback = Some True,
           warning = Some ''DeepStack custom endpoint was not found. Used local ONNX fallback model.'',
           error = None, details = None,
           data = Some demo_data\<rparr>, 200)
   \<and> snd (predict demo_env_no_config demo_app (Some demo_file)) =
       Inr (\<lparr>success = False, fallback = None, warning = None,
             error = Some ''DeepStack custom endpoint was not found.'',
             details = Some (PDict demo_details), data = None\<rparr>, 404)
   \<and> (ERROR, ''Local ONNX fallback failed: Local model config file not found: config.json'')
       \<in> set (fst (predict demo_env_no_config demo_app (Some demo_file)))
   \<and> snd (predict demo_env demo_app_no_fallback (Some demo_file)) =
       Inr (\<lparr>success = False, fallback = None, warning = None,
             error = Some ''DeepStack custom endpoint was not found.'',
             details = Some (PDict demo_details), data = None\<rparr>, 404)
   \<and> predict demo_env_no_config demo_app_no_fallback (Some demo_file)
       = predict demo_env demo_app_no_fallback (Some demo_file)"
proof -
  have v2: "validate_image_upload demo_env_no_config (Some demo_file) = (Some demo_file, None)"
    using demo_valid by (simp add: validate_image_upload_agree [OF demo_agree(1)])
  have r2: "remote_attempt demo_env_no_config demo_app demo_file =
     ([], Inl (DeepstackClientError ''DeepStack custom endpoint was not found.'' 404 demo_details))"
    using demo_remote by (simp add: remote_attempt_agree [OF demo_agree(1)])
  have r3: "remote_attempt demo_env demo_app_no_fallback demo_file =
     ([], Inl (DeepstackClientError ''DeepStack custom endpoint was not found.'' 404 demo_details))"
    by code_simp
  have on: "ENABLE_LOCAL_ONNX_FALLBACK demo_app" "\<not> ENABLE_LOCAL_ONNX_FALLBACK demo_app_no_fallback"
    by (simp_all add: demo_app_def demo_app_no_fallback_def)
  from predict_fallback_policy [OF demo_valid demo_remote] on(1) demo_local_run
  obtain d where d: "snd (predict demo_env demo_app (Some demo_file)) =
      Inr (\<lparr>success = True, fallback = Some True,
            warning = Some ''DeepStack custom endpoint was not found. Used local ONNX fallback model.'',
            error = None, details = None, data = Some d\<rparr>, 200)"
    by blast
  have "snd (predict demo_env demo_app (Some demo_file)) = local_attempt demo_env demo_app demo_file"
    using on(1) by (simp add: predict_def or_empty_def demo_valid demo_remote demo_local_attempt)
  then have 1: "snd (predict demo_env demo_app (Some demo_file)) = Inr (\<lparr>success = True, fallback = Some True,
           warning = Some ''DeepStack custom endpoint was not found. Used local ONNX fallback model.'',
           error = None, details = None,
           data = Some demo_data\<rparr>, 200)"
    using d by (simp only: demo_local_attempt)
  from predict_fallback_policy [OF v2 r2] on(1) demo_local_no_config
  have 2: "snd (predict demo_env_no_config demo_app (Some demo_file)) =
       Inr (\<lparr>success = False, fallback = None, warning = None,
             error = Some ''DeepStack custom endpoint was not found.'',
             details = Some (PDict demo_details), data = None\<rparr>, 404)"
    and 3: "(ERROR, ''Local ONNX fallback failed: Local model config file not found: config.json'')
       \<in> set (fst (predict demo_env_no_config demo_app (Some demo_file)))"
    by simp_all
  from predict_fallback_policy [OF demo_valid r3] on(2) demo_agree(1)
  have 4: "snd (predict demo_env demo_app_no_fallback (Some demo_file)) =
       Inr (\<lparr>success = False, fallback = None, warning = None,
             error = Some ''DeepStack custom endpoint was not found.'',
             details = Some (PDict demo_details), data = None\<rparr>, 404)"
    and 5: "predict demo_env_no_config demo_app_no_fallback (Some demo_file)
       = predict demo_env demo_app_no_fallback (Some demo_file)"
    by simp_all
  from 1 2 3 4 5 show ?thesis by simp
qed

text \<open>
  An exception other than \<open>DeepstackClientError\<close> raised in the \<open>try\<close> block is caught
  by the clause \<open>except Exception\<close>: the reply is the generic one, of status 500, with
  the text of the exception as its details.
\<close>

lemma predict_unexpected_in_try:
  assumes valid: "validate_image_upload env request_file = (Some f, None)"
    and remote: "remote_attempt env cfg f = (lg, Inl e)"
    and other: "\<not> is_deepstack_client_error e"
  shows "predict env cfg request_file =
     (lg @ [(EXCEPTION, ''Unexpected prediction error'')],
      Inr (\<lparr>success = False, fallback = None, warning = None,
            error = Some ''Unexpected server error while processing the prediction.'',
            details = Some (PStr (str_exn e)), data = None\<rparr>, 500))"
  using assms by (cases e) (simp_all add: predict_def or_empty_def server_error_def)

text \<open>
  C9. The claim: an exception of no recognised kind is caught at the outermost boundary
  and answered with status 500 wherever it is raised, the local fallback included. The
  code: the fallback runs inside the handler of \<open>DeepstackClientError\<close>, where the clause
  \<open>except Exception\<close> of the same \<open>try\<close> statement no longer applies; an exception of
  the fallback other than \<open>LocalModelError\<close> leaves \<open>predict\<close>, and no reply is built.
\<close>

theorem predict_fallback_exception_escapes:
  assumes valid: "validate_image_upload env request_file = (Some f, None)"
    and remote: "remote_attempt env cfg f = (lg, Inl (DeepstackClientError msg 404 det))"
    and enabled: "ENABLE_LOCAL_ONNX_FALLBACK cfg"
    and local: "local_attempt env cfg f = Inl e"
    and other: "\<not> is_local_model_error e"
  shows "predict env cfg request_file = (lg, Inl e)"
  using assms by (cases e) (simp_all add: predict_def or_empty_def)

theorem predict_fallback_exception_escapes_witness:
  "validate_image_upload demo_env_bad_config (Some demo_file) = (Some demo_file, None)
   \<and> remote_attempt demo_env_bad_config demo_app demo_file =
       ([], Inl (DeepstackClientError ''DeepStack custom endpoint was not found.'' 404 demo_details))
   \<and> ENABLE_LOCAL_ONNX_FALLBACK demo_app
   \<and> local_attempt demo_env_bad_config demo_app demo_file =
       Inl (PyError ValueError ''Expecting value: line 1 column 1 (char 0)'')
   \<and> \<not> is_local_model_error (PyError ValueError ''Expecting value: line 1 column 1 (char 0)'')
   \<and> predict demo_env_bad_config demo_app (Some demo_file) =
       ([], Inl (PyError ValueError ''Expecting value: line 1 column 1 (char 0)''))"
proof -
  have v: "validate_image_upload demo_env_bad_config (Some demo_file) = (Some demo_file, None)"
    using demo_valid by (simp add: validate_image_upload_agree [OF demo_agree(2)])
  have r: "remote_attempt demo_env_bad_config demo_app demo_file =
     ([], Inl (DeepstackClientError ''DeepStack custom endpoint was not found.'' 404 demo_details))"
    using demo_remote by (simp add: remote_attempt_agree [OF demo_agree(2)])
  have on: "ENABLE_LOCAL_ONNX_FALLBACK demo_app" by (simp add: demo_app_def)
  have other: "\<not> is_local_model_error (PyError ValueError ''Expecting value: line 1 column 1 (char 0)'')"
    by simp
  from predict_fallback_exception_escapes [OF v r on demo_local_bad_config other] v r on
    demo_local_bad_config other
  show ?thesis by simp
qed

end
